theory Spec2Isabelle
  imports Main "HOL-Library.Word"
begin

section \<open>Bytes, faults and fixed-offset decoding\<close>

text \<open>
  The injector is Python: integers are unbounded (\<open>int\<close>, \<open>nat\<close> for counts and sizes),
  a \<open>bytes\<close> object is a list of 8-bit words, and an exception is a value of type
  \<open>fault\<close> on the left of a sum. A \<open>string\<close> stands for a Python \<open>str\<close> whose code
  points are below 256; the code points from 128 on are the ones that
  \<open>encode('ascii')\<close> refuses.
\<close>

type_synonym byte = "8 word"

datatype fault = UnicodeEncodeError | StructError | AttributeError

text \<open>Little-endian value of a byte string, as \<open>struct\<close> reads \<open><I\<close> and \<open><H\<close>.\<close>

fun le_bytes :: "byte list \<Rightarrow> nat" where
  "le_bytes [] = 0"
| "le_bytes (b # bs) = unat b + 256 * le_bytes bs"

text \<open>
  \<open>struct.unpack_from(fmt, data, off)[0]\<close> raises \<open>struct.error\<close> unless the buffer
  holds the whole field from \<open>off\<close> on.
\<close>

definition unpack_from_I :: "byte list \<Rightarrow> nat \<Rightarrow> fault + nat" where
  "unpack_from_I data off =
     (if off + 4 \<le> length data then Inr (le_bytes (take 4 (drop off data)))
      else Inl StructError)"

definition unpack_from_H :: "byte list \<Rightarrow> nat \<Rightarrow> fault + nat" where
  "unpack_from_H data off =
     (if off + 2 \<le> length data then Inr (le_bytes (take 2 (drop off data)))
      else Inl StructError)"

definition is_ascii :: "string \<Rightarrow> bool" where
  "is_ascii s = list_all (\<lambda>c. (of_char c :: nat) < 128) s"

text \<open>The bytes of a string of ASCII characters, one for each character.\<close>

definition ascii_bytes :: "string \<Rightarrow> byte list" where
  "ascii_bytes s = map (\<lambda>c. of_nat (of_char c)) s"

text \<open>\<open>s.encode('ascii')\<close>\<close>

definition encode_ascii :: "string \<Rightarrow> fault + byte list" where
  "encode_ascii s = (if is_ascii s then Inr (ascii_bytes s) else Inl UnicodeEncodeError)"

text \<open>\<open>s.encode('utf-8')\<close> on code points below 256: one byte, or two from 128 on.\<close>

definition encode_utf8 :: "string \<Rightarrow> byte list" where
  "encode_utf8 s =
     concat (map (\<lambda>c. let n = (of_char c :: nat) in
                        if n < 128 then [of_nat n]
                        else [of_nat (192 + n div 64), of_nat (128 + n mod 64)]) s)"

text \<open>
  A function of \<open>ctypes\<close> that has no \<open>restype\<close> returns a C \<open>int\<close>: the low 32 bits
  of the result, read as a signed number. An integer argument of a function that has no
  \<open>argtypes\<close> is passed as a C \<open>int\<close> in the same way.
\<close>

definition c_int :: "int \<Rightarrow> int" where
  "c_int x = sint (word_of_int x :: 32 word)"

section \<open>The operating system as seen by the injector\<close>

text \<open>
  Every \<open>kernel32\<close> entry point the script calls is a field of the record \<open>os\<close>: what
  the call answers, as a function of its arguments. Handles are numbers (0 is \<open>NULL\<close>,
  which \<open>ctypes\<close> hands back as \<open>None\<close>), addresses are integers.
  \<^item> \<open>ReadProcessMemory\<close> answers the \<open>BOOL\<close> result together with the bytes it copied
    into the caller's buffer, for one unmodified image of the target's memory.
  \<^item> \<open>WriteProcessMemory\<close> answers the \<open>BOOL\<close> result and the count stored through
    \<open>lpNumberOfBytesWritten\<close>.
  \<^item> \<open>Toolhelp_modules\<close> lists, for a snapshot handle, the \<open>szModule\<close> text (already
    decoded) and \<open>modBaseAddr\<close> of each entry that \<open>Module32First\<close> and
    \<open>Module32Next\<close> deliver, in order.
  \<^item> \<open>GetModuleHandleW_kernel32\<close> is the handle that \<open>GetModuleHandleW("kernel32.dll")\<close>
    yields in the injector's own process, and \<open>GetProcAddress_LoadLibraryA hModule\<close> the
    address that \<open>GetProcAddress(hModule, "LoadLibraryA")\<close> yields there, both before
    \<open>ctypes\<close> converts them.
  \<^item> \<open>process_iter\<close> is what \<open>psutil.process_iter(['pid', 'name'])\<close> yields; a name
    can be \<open>None\<close>.
\<close>

record os =
  path_exists :: "string \<Rightarrow> bool"
  abspath :: "string \<Rightarrow> string"
  default_dll_path :: string
  sizeof_void_p :: nat
  process_iter :: "(nat \<times> string option) list"
  OpenProcess :: "nat \<Rightarrow> nat"
  IsWow64Process :: "nat \<Rightarrow> bool"
  VirtualAllocEx :: "nat \<Rightarrow> nat \<Rightarrow> int"
  WriteProcessMemory :: "nat \<Rightarrow> int \<Rightarrow> byte list \<Rightarrow> bool \<times> nat"
  ReadProcessMemory :: "nat \<Rightarrow> int \<Rightarrow> nat \<Rightarrow> bool \<times> byte list"
  CreateToolhelp32Snapshot :: "nat \<Rightarrow> nat"
  Toolhelp_modules :: "nat \<Rightarrow> (string \<times> int) list"
  GetModuleHandleW_kernel32 :: int
  GetProcAddress_LoadLibraryA :: "int \<Rightarrow> int"
  CreateRemoteThread :: "nat \<Rightarrow> int \<Rightarrow> int \<Rightarrow> nat"
  WaitForSingleObject :: "nat \<Rightarrow> nat \<Rightarrow> nat"
  GetExitCodeThread :: "nat \<Rightarrow> nat"

text \<open>What the script prints, one constructor for each \<open>print\<close> of the source.\<close>

datatype msg =
    Error_DLL_not_found string
  | Info_Opening_process nat
  | Error_Failed_to_open_process
  | Error_Run_as_Administrator
  | Info_Injector bool
  | Info_Target bool
  | Info_Cross_architecture
  | Error_Memory_allocation_failed
  | Info_Allocated nat int
  | Error_Write_failed
  | Info_Wrote nat
  | Error_No_kernel32_in_target
  | Error_No_LoadLibraryA_in_target
  | Error_GetProcAddress_failed
  | Info_LoadLibraryA_at int
  | Error_Address_exceeds_32bit
  | Error_CreateRemoteThread_failed
  | Info_Remote_thread_created nat
  | Info_Waiting
  | Success_DLL_loaded nat
  | Warning_LoadLibrary_NULL
  | Warning_Wait_timed_out nat
  | Banner string string bool
  | Info_Build_the_DLL
  | Info_Searching
  | Error_Process_not_found
  | Info_Found nat
  | Info_Injection_successful
  | Info_Injection_failed

text \<open>The trace of a run: every system call made and every line printed, in order.\<close>

datatype event =
    Print msg
  | Call_OpenProcess nat
  | Call_IsWow64Process nat
  | Call_VirtualAllocEx nat nat
  | Call_WriteProcessMemory nat int "byte list"
  | Call_ReadProcessMemory nat int nat
  | Call_CreateToolhelp32Snapshot nat
  | Call_GetModuleHandleW
  | Call_GetProcAddress int
  | Call_CreateRemoteThread nat int int
  | Call_WaitForSingleObject nat nat
  | Call_GetExitCodeThread nat
  | Call_CloseHandle nat

section \<open>Remote reads\<close>

text \<open>
  \<open>buf = (ctypes.c_byte * n)(); kernel32.ReadProcessMemory(h, addr, buf, n, ...)\<close>:
  the buffer starts as \<open>n\<close> zero bytes and holds afterwards whatever the call copied
  over them. The result is the \<open>BOOL\<close> of the call and \<open>bytes(buf)\<close>.
\<close>

definition read_buffer :: "os \<Rightarrow> nat \<Rightarrow> int \<Rightarrow> nat \<Rightarrow> bool \<times> byte list" where
  "read_buffer sys h addr n =
     (case ReadProcessMemory sys h addr n of
        (ok, copied) \<Rightarrow> (ok, take n copied @ replicate (n - length copied) 0))"

text \<open>\<open>bytes(name_buf).split(b'\x00')[0]\<close>\<close>

definition split_at_nul :: "byte list \<Rightarrow> byte list" where
  "split_at_nul buf = takeWhile (\<lambda>b. b \<noteq> 0) buf"

section \<open>find_remote_export\<close>

text \<open>
  Step 5 of the source, the loop \<open>for i in range(num_names)\<close>; the arrays are the three
  buffers of step 4. The result is what the function returns or raises from index \<open>i\<close>
  on, with the reads it issues.
\<close>

function search_names ::
  "os \<Rightarrow> nat \<Rightarrow> int \<Rightarrow> byte list \<Rightarrow> byte list \<Rightarrow> byte list \<Rightarrow> byte list \<Rightarrow> nat \<Rightarrow> nat
     \<Rightarrow> (fault + int option) \<times> event list" where
  "search_names sys h_process module_base func_name_bytes
       name_rvas_data ordinals_data func_rvas_data num_names i =
     (if i < num_names then
        (case unpack_from_I name_rvas_data (i * 4) of
           Inl e \<Rightarrow> (Inl e, [])
         | Inr name_rva \<Rightarrow>
            (let rd = Call_ReadProcessMemory h_process (module_base + int name_rva) 128;
                 name_buf = snd (read_buffer sys h_process (module_base + int name_rva) 128);
                 name = split_at_nul name_buf
             in if name = func_name_bytes then
                  (case unpack_from_H ordinals_data (i * 2) of
                     Inl e \<Rightarrow> (Inl e, [rd])
                   | Inr ordinal \<Rightarrow>
                      (case unpack_from_I func_rvas_data (ordinal * 4) of
                         Inl e \<Rightarrow> (Inl e, [rd])
                       | Inr func_rva \<Rightarrow> (Inr (Some (module_base + int func_rva)), [rd])))
                else
                  (case search_names sys h_process module_base func_name_bytes
                          name_rvas_data ordinals_data func_rvas_data num_names (Suc i) of
                     (r, reads) \<Rightarrow> (r, rd # reads))))
      else (Inr None, []))"
  by pat_completeness auto
termination
  by (relation "measure (\<lambda>(sys, h, b, f, nd, od, fd, n, i). n - i)") auto

declare search_names.simps [simp del]

text \<open>Steps 3 to 5: the export directory at \<open>module_base + export_rva\<close>.\<close>

definition read_export_directory ::
  "os \<Rightarrow> nat \<Rightarrow> int \<Rightarrow> byte list \<Rightarrow> nat \<Rightarrow> (fault + int option) \<times> event list" where
  "read_export_directory sys h_process module_base func_name_bytes export_rva =
     (let rd3 = Call_ReadProcessMemory h_process (module_base + int export_rva) 40 in
      case read_buffer sys h_process (module_base + int export_rva) 40 of
        (ok3, ed) \<Rightarrow>
          if \<not> ok3 then (Inr None, [rd3])
          else
            (case (unpack_from_I ed 20, unpack_from_I ed 24, unpack_from_I ed 28,
                   unpack_from_I ed 32, unpack_from_I ed 36) of
               (Inr num_functions, Inr num_names, Inr func_rvas_rva,
                Inr name_rvas_rva, Inr ordinals_rva) \<Rightarrow>
                 (let name_rvas_data =
                        snd (read_buffer sys h_process (module_base + int name_rvas_rva)
                               (num_names * 4));
                      ordinals_data =
                        snd (read_buffer sys h_process (module_base + int ordinals_rva)
                               (num_names * 2));
                      func_rvas_data =
                        snd (read_buffer sys h_process (module_base + int func_rvas_rva)
                               (num_functions * 4));
                      rds4 =
                        [Call_ReadProcessMemory h_process (module_base + int name_rvas_rva)
                           (num_names * 4),
                         Call_ReadProcessMemory h_process (module_base + int ordinals_rva)
                           (num_names * 2),
                         Call_ReadProcessMemory h_process (module_base + int func_rvas_rva)
                           (num_functions * 4)]
                  in case search_names sys h_process module_base func_name_bytes
                            name_rvas_data ordinals_data func_rvas_data num_names 0 of
                       (r, reads) \<Rightarrow> (r, rd3 # rds4 @ reads))
             | _ \<Rightarrow> (Inl StructError, [rd3])))"

text \<open>Step 2: the window of 256 bytes at \<open>module_base + e_lfanew\<close>.\<close>

definition read_pe_header ::
  "os \<Rightarrow> nat \<Rightarrow> int \<Rightarrow> byte list \<Rightarrow> nat \<Rightarrow> (fault + int option) \<times> event list" where
  "read_pe_header sys h_process module_base func_name_bytes e_lfanew =
     (let rd2 = Call_ReadProcessMemory h_process (module_base + int e_lfanew) 256 in
      case read_buffer sys h_process (module_base + int e_lfanew) 256 of
        (ok2, pe_data) \<Rightarrow>
          if \<not> ok2 then (Inr None, [rd2])
          else
            (case unpack_from_I pe_data 0 of
               Inl e \<Rightarrow> (Inl e, [rd2])
             | Inr pe_sig \<Rightarrow>
                if pe_sig \<noteq> 0x4550 then (Inr None, [rd2])
                else
                  (case unpack_from_H pe_data 24 of
                     Inl e \<Rightarrow> (Inl e, [rd2])
                   | Inr magic \<Rightarrow>
                      (case (if magic = 0x10B then Some (unpack_from_I pe_data (24 + 96))
                             else if magic = 0x20B then Some (unpack_from_I pe_data (24 + 112))
                             else None) of
                         None \<Rightarrow> (Inr None, [rd2])
                       | Some (Inl e) \<Rightarrow> (Inl e, [rd2])
                       | Some (Inr export_rva) \<Rightarrow>
                          if export_rva = 0 then (Inr None, [rd2])
                          else
                            (case read_export_directory sys h_process module_base
                                    func_name_bytes export_rva of
                               (r, reads) \<Rightarrow> (r, rd2 # reads))))))"

text \<open>
  The whole function: what it returns (\<open>Inr None\<close> for Python's \<open>None\<close>, \<open>Inr (Some a)\<close>
  for an address) or raises, and the remote reads it issued.
\<close>

definition find_remote_export ::
  "os \<Rightarrow> nat \<Rightarrow> int \<Rightarrow> string \<Rightarrow> (fault + int option) \<times> event list" where
  "find_remote_export sys h_process module_base function_name =
     (case encode_ascii function_name of
        Inl e \<Rightarrow> (Inl e, [])
      | Inr func_name_bytes \<Rightarrow>
         (let rd1 = Call_ReadProcessMemory h_process module_base 64 in
          case read_buffer sys h_process module_base 64 of
            (ok1, dos_header) \<Rightarrow>
              if \<not> ok1 then (Inr None, [rd1])
              else
                (case unpack_from_I dos_header 0x3C of
                   Inl e \<Rightarrow> (Inl e, [rd1])
                 | Inr e_lfanew \<Rightarrow>
                    (case read_pe_header sys h_process module_base func_name_bytes e_lfanew of
                       (r, reads) \<Rightarrow> (r, rd1 # reads)))))"

section \<open>Helper functions of the injector\<close>

text \<open>
  \<open>str.lower()\<close> on code points below 256: the ASCII capitals and the Latin-1 capitals
  (all of C0 to DE but the multiplication sign D7) move up by 32.
\<close>

definition lower_char :: "char \<Rightarrow> char" where
  "lower_char c =
     (let n = (of_char c :: nat) in
      if (65 \<le> n \<and> n \<le> 90) \<or> (192 \<le> n \<and> n \<le> 222 \<and> n \<noteq> 215) then char_of (n + 32)
      else c)"

definition lower :: "string \<Rightarrow> string" where
  "lower s = map lower_char s"

text \<open>
  \<open>find_process_by_name\<close>: the first process whose name matches without regard to case.
  A process whose name is \<open>None\<close> makes \<open>.lower()\<close> raise \<open>AttributeError\<close>, which the
  \<open>except\<close> clause of the source does not catch.
\<close>

fun find_process_by_name :: "(nat \<times> string option) list \<Rightarrow> string \<Rightarrow> fault + nat option" where
  "find_process_by_name [] process_name = Inr None"
| "find_process_by_name ((pid, None) # procs) process_name = Inl AttributeError"
| "find_process_by_name ((pid, Some name) # procs) process_name =
     (if lower name = lower process_name then Inr (Some pid)
      else find_process_by_name procs process_name)"

definition is_target_32bit :: "os \<Rightarrow> nat \<Rightarrow> bool \<times> event list" where
  "is_target_32bit sys h_process = (IsWow64Process sys h_process, [Call_IsWow64Process h_process])"

definition is_self_64bit :: "os \<Rightarrow> bool" where
  "is_self_64bit sys = (sizeof_void_p sys = 8)"

text \<open>
  The walk over the module list of \<open>find_remote_module_base\<close>: it stops at the first
  entry whose name matches, and a \<open>modBaseAddr\<close> of \<open>NULL\<close> reads as \<open>None\<close>.
\<close>

fun walk_modules :: "(string \<times> int) list \<Rightarrow> string \<Rightarrow> int option" where
  "walk_modules [] module_name = None"
| "walk_modules ((szModule, modBaseAddr) # rest) module_name =
     (if lower szModule = lower module_name
      then (if modBaseAddr = 0 then None else Some modBaseAddr)
      else walk_modules rest module_name)"

definition find_remote_module_base :: "os \<Rightarrow> nat \<Rightarrow> string \<Rightarrow> int option \<times> event list" where
  "find_remote_module_base sys process_id module_name =
     (let snap = CreateToolhelp32Snapshot sys process_id in
      if snap = 2 ^ (8 * sizeof_void_p sys) - 1
      then (None, [Call_CreateToolhelp32Snapshot process_id])
      else (walk_modules (Toolhelp_modules sys snap) module_name,
            [Call_CreateToolhelp32Snapshot process_id, Call_CloseHandle snap]))"

section \<open>inject_dll\<close>

definition WAIT_OBJECT_0 :: nat where
  "WAIT_OBJECT_0 = 0"

text \<open>
  Lines 430 to 446 of the source: the wait of 10000 ms on the thread and the reading of
  its result. The value is what \<open>inject_dll\<close> returns from here.
\<close>

definition wait_for_thread :: "os \<Rightarrow> nat \<Rightarrow> (fault + bool) \<times> event list" where
  "wait_for_thread sys h_thread =
     (let wait_result = WaitForSingleObject sys h_thread 10000;
          t = [Print Info_Waiting, Call_WaitForSingleObject h_thread 10000]
      in if wait_result = WAIT_OBJECT_0 then
           (let exit_code = GetExitCodeThread sys h_thread;
                t' = t @ [Call_GetExitCodeThread h_thread]
            in if exit_code \<noteq> 0
               then (Inr True, t' @ [Print (Success_DLL_loaded exit_code), Call_CloseHandle h_thread])
               else (Inr False, t' @ [Print Warning_LoadLibrary_NULL]))
         else (Inr True, t @ [Print (Warning_Wait_timed_out wait_result), Call_CloseHandle h_thread]))"

text \<open>Lines 418 to 428: the remote thread at the resolved address, then the wait.\<close>

definition start_remote_thread :: "os \<Rightarrow> nat \<Rightarrow> int \<Rightarrow> int \<Rightarrow> (fault + bool) \<times> event list" where
  "start_remote_thread sys h_process load_library_addr remote_memory =
     (let h_thread = CreateRemoteThread sys h_process load_library_addr remote_memory;
          t = [Call_CreateRemoteThread h_process load_library_addr remote_memory]
      in if h_thread = 0 then (Inr False, t @ [Print Error_CreateRemoteThread_failed])
         else (case wait_for_thread sys h_thread of
                 (r, t') \<Rightarrow> (r, t @ [Print (Info_Remote_thread_created h_thread)] @ t')))"

text \<open>
  Lines 389 to 409: the address of \<open>LoadLibraryA\<close>. \<open>Inr None\<close> stands for the branches
  that print an error and make \<open>inject_dll\<close> return \<open>False\<close>. In the same-mode branch
  neither \<open>kernel32.GetModuleHandleW\<close> nor \<open>kernel32.GetProcAddress\<close> has a declared
  signature, so the module handle reaches \<open>GetProcAddress\<close> as a C \<open>int\<close> and the address
  comes back as a C \<open>int\<close>.
\<close>

definition resolve_load_library ::
  "os \<Rightarrow> nat \<Rightarrow> nat \<Rightarrow> bool \<Rightarrow> (fault + int option) \<times> event list" where
  "resolve_load_library sys process_id h_process cross_arch =
     (if cross_arch then
        (case find_remote_module_base sys process_id ''kernel32.dll'' of
           (None, t) \<Rightarrow> (Inr None, t @ [Print Error_No_kernel32_in_target])
         | (Some kernel32_base, t) \<Rightarrow>
            (case find_remote_export sys h_process kernel32_base ''LoadLibraryA'' of
               (Inl e, t') \<Rightarrow> (Inl e, t @ t')
             | (Inr None, t') \<Rightarrow> (Inr None, t @ t' @ [Print Error_No_LoadLibraryA_in_target])
             | (Inr (Some load_library_addr), t') \<Rightarrow> (Inr (Some load_library_addr), t @ t')))
      else
        (let hModule = c_int (GetModuleHandleW_kernel32 sys);
             load_library_addr = c_int (GetProcAddress_LoadLibraryA sys hModule);
             t = [Call_GetModuleHandleW, Call_GetProcAddress hModule]
         in if load_library_addr = 0
            then (Inr None, t @ [Print Error_GetProcAddress_failed])
            else (Inr (Some load_library_addr), t)))"

text \<open>Lines 369 to 446: the body of the \<open>try\<close> block.\<close>

definition inject_body ::
  "os \<Rightarrow> nat \<Rightarrow> nat \<Rightarrow> bool \<Rightarrow> bool \<Rightarrow> byte list \<Rightarrow> (fault + bool) \<times> event list" where
  "inject_body sys process_id h_process cross_arch target_32bit dll_bytes =
     (let dll_size = length dll_bytes;
          remote_memory = VirtualAllocEx sys h_process dll_size;
          t1 = [Call_VirtualAllocEx h_process dll_size]
      in if remote_memory = 0 then (Inr False, t1 @ [Print Error_Memory_allocation_failed])
         else
           (case WriteProcessMemory sys h_process remote_memory dll_bytes of
              (ok, bytes_written) \<Rightarrow>
                (let t2 = t1 @ [Print (Info_Allocated dll_size remote_memory),
                                Call_WriteProcessMemory h_process remote_memory dll_bytes]
                 in if \<not> ok then (Inr False, t2 @ [Print Error_Write_failed])
                    else
                      (case resolve_load_library sys process_id h_process cross_arch of
                         (Inl e, t3) \<Rightarrow> (Inl e, t2 @ [Print (Info_Wrote bytes_written)] @ t3)
                       | (Inr None, t3) \<Rightarrow> (Inr False, t2 @ [Print (Info_Wrote bytes_written)] @ t3)
                       | (Inr (Some load_library_addr), t3) \<Rightarrow>
                          (let t4 = t2 @ [Print (Info_Wrote bytes_written)] @ t3
                                       @ [Print (Info_LoadLibraryA_at load_library_addr)]
                           in if target_32bit \<and> load_library_addr > 0xFFFFFFFF
                              then (Inr False, t4 @ [Print Error_Address_exceeds_32bit])
                              else
                                (case start_remote_thread sys h_process load_library_addr
                                        remote_memory of
                                   (r, t5) \<Rightarrow> (r, t4 @ t5)))))))"

text \<open>
  The whole function. The \<open>finally\<close> clause closes the process handle after the body,
  whether the body returned or raised.
\<close>

definition inject_dll :: "os \<Rightarrow> nat \<Rightarrow> string \<Rightarrow> (fault + bool) \<times> event list" where
  "inject_dll sys process_id dll_path =
     (if \<not> path_exists sys dll_path then (Inr False, [Print (Error_DLL_not_found dll_path)])
      else
        (let dll_bytes = encode_utf8 (abspath sys dll_path) @ [0];
             h_process = OpenProcess sys process_id;
             t0 = [Print (Info_Opening_process process_id), Call_OpenProcess process_id]
         in if h_process = 0
            then (Inr False, t0 @ [Print Error_Failed_to_open_process, Print Error_Run_as_Administrator])
            else
              (case is_target_32bit sys h_process of
                 (target_32bit, tp) \<Rightarrow>
                   (let self_64bit = is_self_64bit sys;
                        cross_arch = (self_64bit \<and> target_32bit);
                        t1 = t0 @ tp @ [Print (Info_Injector self_64bit), Print (Info_Target target_32bit)]
                               @ (if cross_arch then [Print Info_Cross_architecture] else [])
                    in case inject_body sys process_id h_process cross_arch target_32bit dll_bytes of
                         (r, t2) \<Rightarrow> (r, t1 @ t2 @ [Call_CloseHandle h_process])))))"

section \<open>main\<close>

text \<open>
  \<open>main\<close> with \<open>sys.argv\<close> as argument. \<open>Inr n\<close> is the status the script ends with
  (\<open>sys.exit(1)\<close>, or 0 when \<open>main\<close> returns); \<open>Inl e\<close> is an exception that nothing
  catches, after which the interpreter ends with status 1.
\<close>

definition main :: "os \<Rightarrow> string list \<Rightarrow> (fault + nat) \<times> event list" where
  "main sys argv =
     (let TARGET_PROCESS = ''hl.exe'';
          dll_path = (if length argv > 1 then argv ! 1 else default_dll_path sys);
          t0 = [Print (Banner TARGET_PROCESS dll_path (is_self_64bit sys))]
      in if \<not> path_exists sys dll_path
         then (Inr 1, t0 @ [Print (Error_DLL_not_found dll_path), Print Info_Build_the_DLL])
         else
           (case find_process_by_name (process_iter sys) TARGET_PROCESS of
              Inl e \<Rightarrow> (Inl e, t0 @ [Print Info_Searching])
            | Inr None \<Rightarrow> (Inr 1, t0 @ [Print Info_Searching, Print Error_Process_not_found])
            | Inr (Some process_id) \<Rightarrow>
               (case inject_dll sys process_id dll_path of
                  (Inl e, t) \<Rightarrow> (Inl e, t0 @ [Print Info_Searching, Print (Info_Found process_id)] @ t)
                | (Inr True, t) \<Rightarrow>
                    (Inr 0, t0 @ [Print Info_Searching, Print (Info_Found process_id)] @ t
                              @ [Print Info_Injection_successful])
                | (Inr False, t) \<Rightarrow>
                    (Inr 1, t0 @ [Print Info_Searching, Print (Info_Found process_id)] @ t
                              @ [Print Info_Injection_failed]))))"

definition exit_status :: "(fault + nat) \<Rightarrow> nat" where
  "exit_status r = (case r of Inl e \<Rightarrow> 1 | Inr n \<Rightarrow> n)"

section \<open>Well-formed export directories\<close>

text \<open>
  What the claims call a well-formed export directory, readable through a process handle.
  These definitions describe the target's memory; they are not part of the injector.
  \<open>le_encode k n\<close> is the little-endian encoding of \<open>n\<close> in \<open>k\<close> bytes.
\<close>

fun le_encode :: "nat \<Rightarrow> nat \<Rightarrow> byte list" where
  "le_encode 0 n = []"
| "le_encode (Suc k) n = of_nat (n mod 256) # le_encode k (n div 256)"

definition u16le :: "nat \<Rightarrow> byte list" where
  "u16le n = le_encode (Suc (Suc 0)) n"

definition u32le :: "nat \<Rightarrow> byte list" where
  "u32le n = le_encode (Suc (Suc (Suc (Suc 0)))) n"

text \<open>
  The three header records as byte strings, and the export tables as values: the function
  RVAs, the ordinals, the name pointers, and the exported names without their final
  \<open>NUL\<close>.
\<close>

record export_image =
  dos_header :: "byte list"
  pe_header :: "byte list"
  export_dir :: "byte list"
  functionTable :: "nat list"
  ordinalTable :: "nat list"
  namePointers :: "nat list"
  exportNames :: "byte list list"

text \<open>A read of \<open>length bs\<close> bytes at \<open>addr\<close> succeeds and copies exactly \<open>bs\<close>.\<close>

definition reads_as :: "os \<Rightarrow> nat \<Rightarrow> int \<Rightarrow> byte list \<Rightarrow> bool" where
  "reads_as sys h addr bs = (ReadProcessMemory sys h addr (length bs) = (True, bs))"

text \<open>
  The string \<open>nm\<close>, which holds no zero byte, lies at \<open>addr\<close> followed by a \<open>NUL\<close>, and
  can be read there.
\<close>

definition name_at :: "os \<Rightarrow> nat \<Rightarrow> int \<Rightarrow> byte list \<Rightarrow> bool" where
  "name_at sys h addr nm = (0 \<notin> set nm \<and> reads_as sys h addr (nm @ [0]))"

text \<open>
  The 128 bytes from \<open>addr\<close> on can be read in one call, and start with the name and its
  \<open>NUL\<close>, as far as they fit. This is more than \<open>name_at\<close> asks: the memory must be
  readable for 128 bytes from the start of the name, however short the name is.
\<close>

definition window_at :: "os \<Rightarrow> nat \<Rightarrow> int \<Rightarrow> byte list \<Rightarrow> bool" where
  "window_at sys h addr nm =
     (case ReadProcessMemory sys h addr 128 of
        (ok, w) \<Rightarrow> ok \<and> length w = 128
                   \<and> take (Suc (length nm)) w = take 128 (nm @ [0]))"

text \<open>The little-endian fields of 4 and 2 bytes at an offset of a record.\<close>

definition field32 :: "byte list \<Rightarrow> nat \<Rightarrow> nat" where
  "field32 data off = le_bytes (take 4 (drop off data))"

definition field16 :: "byte list \<Rightarrow> nat \<Rightarrow> nat" where
  "field16 data off = le_bytes (take 2 (drop off data))"

text \<open>
  The image at \<open>base\<close> has a DOS header, a PE header with the signature and one of the two
  magics, a non-zero export directory RVA at the offset of its layout, an export directory
  whose counts are the lengths of the tables, the three arrays at the RVAs the directory
  gives, every ordinal below the number of functions, and every name at its pointer.
\<close>

definition well_formed_exports :: "os \<Rightarrow> nat \<Rightarrow> int \<Rightarrow> export_image \<Rightarrow> bool" where
  "well_formed_exports sys h base x =
     (length (dos_header x) = 64 \<and> reads_as sys h base (dos_header x)
      \<and> length (pe_header x) = 256
      \<and> reads_as sys h (base + int (field32 (dos_header x) 60)) (pe_header x)
      \<and> field32 (pe_header x) 0 = 0x4550
      \<and> (field16 (pe_header x) 24 = 0x10B \<and> field32 (pe_header x) 120 \<noteq> 0
           \<or> field16 (pe_header x) 24 = 0x20B \<and> field32 (pe_header x) 136 \<noteq> 0)
      \<and> length (export_dir x) = 40
      \<and> reads_as sys h
            (base + int (field32 (pe_header x) (if field16 (pe_header x) 24 = 0x10B then 120 else 136)))
            (export_dir x)
      \<and> field32 (export_dir x) 20 = length (functionTable x)
      \<and> field32 (export_dir x) 24 = length (exportNames x)
      \<and> reads_as sys h (base + int (field32 (export_dir x) 28))
            (concat (map u32le (functionTable x)))
      \<and> reads_as sys h (base + int (field32 (export_dir x) 32))
            (concat (map u32le (namePointers x)))
      \<and> reads_as sys h (base + int (field32 (export_dir x) 36))
            (concat (map u16le (ordinalTable x)))
      \<and> list_all (\<lambda>f. f < 2 ^ 32) (functionTable x)
      \<and> list_all (\<lambda>p. p < 2 ^ 32) (namePointers x)
      \<and> list_all (\<lambda>k. k < 2 ^ 16 \<and> k < length (functionTable x)) (ordinalTable x)
      \<and> length (ordinalTable x) = length (exportNames x)
      \<and> list_all2 (\<lambda>p nm. name_at sys h (base + int p) nm) (namePointers x) (exportNames x))"

text \<open>The window of 128 bytes at every name pointer can be read.\<close>

definition windows_readable :: "os \<Rightarrow> nat \<Rightarrow> int \<Rightarrow> export_image \<Rightarrow> bool" where
  "windows_readable sys h base x =
     list_all2 (\<lambda>p nm. window_at sys h (base + int p) nm) (namePointers x) (exportNames x)"

text \<open>
  The result that claim C2 words: the function of the first entry whose name equals the
  symbol name. \<open>resolve_windowed\<close> is the same with each name cut to its first 128 bytes.
\<close>

definition resolve_claimed :: "int \<Rightarrow> export_image \<Rightarrow> byte list \<Rightarrow> int option" where
  "resolve_claimed base x name =
     (case find (\<lambda>i. exportNames x ! i = name) [0..<length (exportNames x)] of
        None \<Rightarrow> None
      | Some i \<Rightarrow> Some (base + int (functionTable x ! (ordinalTable x ! i))))"

definition resolve_windowed :: "int \<Rightarrow> export_image \<Rightarrow> byte list \<Rightarrow> int option" where
  "resolve_windowed base x name =
     (case find (\<lambda>i. take 128 (exportNames x ! i) = name) [0..<length (exportNames x)] of
        None \<Rightarrow> None
      | Some i \<Rightarrow> Some (base + int (functionTable x ! (ordinalTable x ! i))))"

section \<open>A synthetic target\<close>

text \<open>
  Concrete inputs for the runs below: an image of 896 bytes with two exports (RVAs 0x1000
  and 0x2000, names at 0x180 and 0x280, each in a slot of 256 bytes padded with zeros), a
  remote memory that holds this image at \<open>start\<close> and refuses every read that leaves it
  or touches one of the \<open>holes\<close>, and an operating system in which every call succeeds:
  a 64-bit injector, a 32-bit target. The variants change one answer each;
  \<open>same_mode_os\<close> is a 32-bit injector with a 32-bit target, whose own \<open>kernel32\<close> lies
  where the target's does, \<open>same_mode_64_os\<close> a 64-bit injector with a 64-bit target,
  and \<open>truncated_image\<close> ends right after the \<open>NUL\<close> of the second name.
\<close>

definition name_slot :: "byte list \<Rightarrow> byte list" where
  "name_slot nm = nm @ replicate (256 - length nm) 0"

definition synthetic_image ::
  "nat \<Rightarrow> nat \<Rightarrow> nat \<Rightarrow> nat list \<Rightarrow> byte list \<Rightarrow> byte list \<Rightarrow> byte list" where
  "synthetic_image pe_sig magic export_rva ordinals name0 name1 =
     replicate 60 0 @ u32le 64
     @ u32le pe_sig @ replicate 20 0 @ u16le magic @ replicate 94 0 @ u32le export_rva
     @ replicate 132 0
     @ replicate 20 0 @ u32le 2 @ u32le 2 @ u32le 0x168 @ u32le 0x170 @ u32le 0x178
     @ u32le 0x1000 @ u32le 0x2000
     @ u32le 0x180 @ u32le 0x280
     @ concat (map u16le ordinals) @ replicate 4 0
     @ name_slot name0 @ name_slot name1"

definition read_image ::
  "int \<Rightarrow> byte list \<Rightarrow> (int \<times> int) list \<Rightarrow> nat \<Rightarrow> int \<Rightarrow> nat \<Rightarrow> bool \<times> byte list" where
  "read_image start img holes h addr n =
     (if start \<le> addr \<and> addr + int n \<le> start + int (length img)
         \<and> list_all (\<lambda>(lo, hi). addr + int n \<le> start + lo \<or> start + hi \<le> addr) holes
      then (True, take n (drop (nat (addr - start)) img))
      else (False, []))"

definition synthetic_os :: "int \<Rightarrow> byte list \<Rightarrow> (int \<times> int) list \<Rightarrow> os" where
  "synthetic_os base img holes =
     \<lparr> path_exists = (\<lambda>p. True), abspath = (\<lambda>p. p), default_dll_path = ''overlay.dll'',
       sizeof_void_p = 8, process_iter = [(4321, Some ''hl.exe'')],
       OpenProcess = (\<lambda>pid. 100), IsWow64Process = (\<lambda>h. True),
       VirtualAllocEx = (\<lambda>h n. 0x20000),
       WriteProcessMemory = (\<lambda>h a bs. (True, length bs)),
       ReadProcessMemory = read_image base img holes,
       CreateToolhelp32Snapshot = (\<lambda>pid. 200),
       Toolhelp_modules = (\<lambda>s. [(''hl.exe'', 0x400000), (''KERNEL32.DLL'', base)]),
       GetModuleHandleW_kernel32 = 0x7FF800000000,
       GetProcAddress_LoadLibraryA = (\<lambda>hModule. if hModule = 0x7FF800000000 then 0x7FF800002000 else 0),
       CreateRemoteThread = (\<lambda>h s a. 300),
       WaitForSingleObject = (\<lambda>h ms. 0),
       GetExitCodeThread = (\<lambda>h. 0x10000000) \<rparr>"

definition good_image :: "byte list" where
  "good_image = synthetic_image 0x4550 0x10B 0x140 [0, 1]
                  (ascii_bytes ''Beep'') (ascii_bytes ''LoadLibraryA'')"

definition good_exports :: "byte list \<Rightarrow> byte list \<Rightarrow> byte list \<Rightarrow> export_image" where
  "good_exports img name0 name1 =
     \<lparr> dos_header = take 64 img, pe_header = take 256 (drop 64 img),
       export_dir = take 40 (drop 320 img),
       functionTable = [0x1000, 0x2000], ordinalTable = [0, 1],
       namePointers = [0x180, 0x280], exportNames = [name0, name1] \<rparr>"

definition long_name :: string where
  "long_name = replicate 129 (CHR ''A'')"

definition long_name_image :: "byte list" where
  "long_name_image = synthetic_image 0x4550 0x10B 0x140 [0, 1]
                  (ascii_bytes ''Beep'') (ascii_bytes long_name)"

definition name128 :: string where
  "name128 = replicate 128 (CHR ''A'')"

definition name128_image :: "byte list" where
  "name128_image = synthetic_image 0x4550 0x10B 0x140 [0, 1]
                     (ascii_bytes ''Beep'') (ascii_bytes name128)"

definition bad_signature_image :: "byte list" where
  "bad_signature_image = synthetic_image 0x4551 0x10B 0x140 [0, 1]
                     (ascii_bytes ''Beep'') (ascii_bytes ''LoadLibraryA'')"

definition bad_magic_image :: "byte list" where
  "bad_magic_image = synthetic_image 0x4550 0x30B 0x140 [0, 1]
                     (ascii_bytes ''Beep'') (ascii_bytes ''LoadLibraryA'')"

definition no_exports_image :: "byte list" where
  "no_exports_image = synthetic_image 0x4550 0x10B 0 [0, 1]
                     (ascii_bytes ''Beep'') (ascii_bytes ''LoadLibraryA'')"

definition bad_ordinal_image :: "byte list" where
  "bad_ordinal_image = synthetic_image 0x4550 0x10B 0x140 [0, 7]
                     (ascii_bytes ''Beep'') (ascii_bytes ''LoadLibraryA'')"

definition same_mode_os :: os where
  "same_mode_os = (synthetic_os 0x75000000 good_image [])
     \<lparr> sizeof_void_p := 4, GetModuleHandleW_kernel32 := 0x75000000,
       GetProcAddress_LoadLibraryA := (\<lambda>hModule. if hModule = 0x75000000 then 0x75002000 else 0) \<rparr>"

definition same_mode_64_os :: os where
  "same_mode_64_os = (synthetic_os 0x75000000 good_image []) \<lparr> IsWow64Process := (\<lambda>h. False) \<rparr>"

definition truncated_image :: "byte list" where
  "truncated_image = take 653 good_image"

definition load_rejected_os :: os where
  "load_rejected_os = same_mode_os \<lparr> GetExitCodeThread := (\<lambda>h. 0) \<rparr>"

definition timeout_os :: os where
  "timeout_os = same_mode_os \<lparr> WaitForSingleObject := (\<lambda>h ms. 0x102) \<rparr>"

definition failed_write_os :: os where
  "failed_write_os = same_mode_os
     \<lparr> WriteProcessMemory := (\<lambda>h a bs. if a = 0x20000 then (False, 3) else (True, length bs)) \<rparr>"

definition high_base_os :: os where
  "high_base_os = synthetic_os 0x175000000 good_image []"


section \<open>Evaluation and decoding lemmas\<close>

lemmas eval_defs = find_remote_export_def read_pe_header_def read_export_directory_def
  search_names.simps read_buffer_def split_at_nul_def unpack_from_I_def unpack_from_H_def
  encode_ascii_def is_ascii_def synthetic_os_def read_image_def good_image_def synthetic_image_def
  u16le_def u32le_def name_slot_def ascii_bytes_def

lemmas spec_defs = well_formed_exports_def good_exports_def reads_as_def name_at_def
  window_at_def windows_readable_def
  field32_def field16_def resolve_claimed_def resolve_windowed_def

lemma Cons_eq_replicate:
  "(x # xs = replicate n y) = (0 < n \<and> x = y \<and> xs = replicate (n - 1) y)"
  by (cases n) auto

lemma length_read_buffer: "length (snd (read_buffer sys h addr n)) = n"
  by (cases "ReadProcessMemory sys h addr n") (auto simp: read_buffer_def)

lemma read_buffer_reads_as:
  "reads_as sys h addr bs \<Longrightarrow> read_buffer sys h addr (length bs) = (True, bs)"
  by (simp add: reads_as_def read_buffer_def)

lemma length_le_encode: "length (le_encode k n) = k"
  by (induction k arbitrary: n) auto

lemma le_bytes_le_encode: "le_bytes (le_encode k n) = n mod 256 ^ k"
proof (induction k arbitrary: n)
  case 0
  show ?case by simp
next
  case (Suc k)
  have "le_bytes (le_encode (Suc k) n) = n mod 256 + 256 * ((n div 256) mod 256 ^ k)"
    by (simp add: Suc unat_of_nat)
  also have "\<dots> = n mod 256 ^ Suc k"
    by (simp add: mod_mult2_eq)
  finally show ?case .
qed

lemma le_bytes_u32le: "n < 2 ^ 32 \<Longrightarrow> le_bytes (u32le n) = n"
  unfolding u32le_def le_bytes_le_encode by simp

lemma le_bytes_u16le: "n < 2 ^ 16 \<Longrightarrow> le_bytes (u16le n) = n"
  unfolding u16le_def le_bytes_le_encode by simp

lemma length_u32le: "length (u32le n) = 4"
  by (simp add: u32le_def length_le_encode)

lemma length_u16le: "length (u16le n) = 2"
  by (simp add: u16le_def length_le_encode)

lemma length_concat_fixed:
  "(\<And>x. length (f x) = k) \<Longrightarrow> length (concat (map f xs)) = k * length xs"
  by (induction xs) auto

lemma drop_concat_fixed:
  "(\<And>x. length (f x) = k) \<Longrightarrow> drop (i * k) (concat (map f xs)) = concat (map f (drop i xs))"
proof (induction xs arbitrary: i)
  case Nil
  show ?case by simp
next
  case (Cons x xs)
  show ?case
  proof (cases i)
    case 0
    then show ?thesis by simp
  next
    case (Suc j)
    have "drop (Suc j * k) (f x @ concat (map f xs)) = drop (j * k) (concat (map f xs))"
      using Cons.prems [of x] by simp
    then show ?thesis using Suc Cons.IH [OF Cons.prems, of j] by simp
  qed
qed

lemma take_concat_fixed:
  "(\<And>x. length (f x) = k) \<Longrightarrow> i < length xs \<Longrightarrow>
     take k (drop (i * k) (concat (map f xs))) = f (xs ! i)"
proof -
  assume len: "\<And>x. length (f x) = k" and i: "i < length xs"
  have "drop i xs = xs ! i # drop (Suc i) xs"
    using i by (simp add: Cons_nth_drop_Suc)
  then show ?thesis
    using len by (simp add: drop_concat_fixed [of f k])
qed

lemma unpack_from_I_table:
  assumes "i < length xs" and "list_all (\<lambda>x. x < 2 ^ 32) xs"
  shows "unpack_from_I (concat (map u32le xs)) (i * 4) = Inr (xs ! i)"
proof -
  have "xs ! i < 2 ^ 32"
    using assms by (simp add: list_all_length)
  moreover have "i * 4 + 4 \<le> length (concat (map u32le xs))"
    using assms(1) by (simp add: length_concat_fixed [of u32le 4] length_u32le)
  ultimately show ?thesis
    using assms(1)
    by (simp add: unpack_from_I_def take_concat_fixed [of u32le 4] length_u32le le_bytes_u32le)
qed

lemma unpack_from_H_table:
  assumes "i < length xs" and "list_all (\<lambda>x. x < 2 ^ 16) xs"
  shows "unpack_from_H (concat (map u16le xs)) (i * 2) = Inr (xs ! i)"
proof -
  have "xs ! i < 2 ^ 16"
    using assms by (simp add: list_all_length)
  moreover have "i * 2 + 2 \<le> length (concat (map u16le xs))"
    using assms(1) by (simp add: length_concat_fixed [of u16le 2] length_u16le)
  ultimately show ?thesis
    using assms(1)
    by (simp add: unpack_from_H_def take_concat_fixed [of u16le 2] length_u16le le_bytes_u16le)
qed

lemma split_at_nul_window:
  assumes w: "length w = 128" and z: "0 \<notin> set nm"
    and pre: "take (Suc (length nm)) w = take 128 (nm @ [0])"
  shows "split_at_nul w = take 128 nm"
proof (cases "length nm < 128")
  case True
  then have "take (Suc (length nm)) w = nm @ [0]"
    using pre by simp
  then have "w = (nm @ [0]) @ drop (Suc (length nm)) w"
    by (metis append_take_drop_id)
  then have "split_at_nul w = takeWhile (\<lambda>b. b \<noteq> 0) (nm @ 0 # drop (Suc (length nm)) w)"
    by (simp add: split_at_nul_def)
  also have "\<dots> = nm"
    using z by (auto simp: takeWhile_append2 takeWhile_tail)
  finally show ?thesis using True by simp
next
  case False
  then have "w = take 128 nm"
    using pre w by simp
  moreover have "\<forall>b\<in>set (take 128 nm). b \<noteq> 0"
    using z by (metis in_set_takeD)
  ultimately show ?thesis
    by (simp add: split_at_nul_def)
qed

lemma unpack_from_I_field32:
  "off + 4 \<le> length d \<Longrightarrow> unpack_from_I d off = Inr (field32 d off)"
  by (simp add: unpack_from_I_def field32_def)

lemma unpack_from_H_field16:
  "off + 2 \<le> length d \<Longrightarrow> unpack_from_H d off = Inr (field16 d off)"
  by (simp add: unpack_from_H_def field16_def)

lemma window_at_split_at_nul:
  assumes "window_at sys h addr nm" and "0 \<notin> set nm"
  shows "split_at_nul (snd (read_buffer sys h addr 128)) = take 128 nm"
proof -
  obtain ok w where r: "ReadProcessMemory sys h addr 128 = (ok, w)"
    by (cases "ReadProcessMemory sys h addr 128")
  with assms have w: "length w = 128" "0 \<notin> set nm"
    "take (Suc (length nm)) w = take 128 (nm @ [0])"
    by (simp_all add: window_at_def)
  have "snd (read_buffer sys h addr 128) = w"
    using r w(1) by (simp add: read_buffer_def)
  then show ?thesis
    using split_at_nul_window [OF w] by simp
qed

lemma search_names_well_formed:
  assumes ptrs: "list_all (\<lambda>p. p < 2 ^ 32) ps"
    and ords: "list_all (\<lambda>k. k < 2 ^ 16 \<and> k < length fs) ks"
    and funs: "list_all (\<lambda>f. f < 2 ^ 32) fs"
    and names: "list_all2 (\<lambda>p nm. window_at sys h (base + int p) nm) ps nms"
    and nz: "list_all (\<lambda>nm. 0 \<notin> set nm) nms"
    and len: "length ks = length nms"
  shows "fst (search_names sys h base fn (concat (map u32le ps)) (concat (map u16le ks))
                (concat (map u32le fs)) (length nms) i)
         = Inr (case find (\<lambda>j. take 128 (nms ! j) = fn) [i..<length nms] of
                  None \<Rightarrow> None
                | Some j \<Rightarrow> Some (base + int (fs ! (ks ! j))))"
proof (induction "length nms - i" arbitrary: i)
  case 0
  then have "\<not> i < length nms" by simp
  then show ?case
    by (subst search_names.simps) simp
next
  case (Suc d)
  then have i: "i < length nms" by simp
  have lps: "length ps = length nms"
    using names by (rule list_all2_lengthD)
  have p: "unpack_from_I (concat (map u32le ps)) (i * 4) = Inr (ps ! i)"
    using i lps ptrs by (simp add: unpack_from_I_table)
  have "window_at sys h (base + int (ps ! i)) (nms ! i)"
    using names i by (simp add: list_all2_conv_all_nth)
  moreover have "0 \<notin> set (nms ! i)"
    using nz i by (simp add: list_all_length)
  ultimately
  have nm: "split_at_nul (snd (read_buffer sys h (base + int (ps ! i)) 128)) = take 128 (nms ! i)"
    by (rule window_at_split_at_nul)
  have k16: "list_all (\<lambda>k. k < 2 ^ 16) ks"
    using ords by (simp add: list_all_iff)
  have k: "unpack_from_H (concat (map u16le ks)) (i * 2) = Inr (ks ! i)"
    using i len k16 by (simp add: unpack_from_H_table)
  have "ks ! i < length fs"
    using ords i len by (simp add: list_all_length)
  then have f: "unpack_from_I (concat (map u32le fs)) (ks ! i * 4) = Inr (fs ! (ks ! i))"
    using funs by (simp add: unpack_from_I_table)
  have upt: "[i..<length nms] = i # [Suc i..<length nms]"
    using i by (simp add: upt_conv_Cons)
  show ?case
  proof (cases "take 128 (nms ! i) = fn")
    case True
    then show ?thesis
      using i p nm k f upt by (subst search_names.simps) simp
  next
    case False
    have "d = length nms - Suc i"
      using Suc.hyps(2) by simp
    from Suc.hyps(1) [OF this] False show ?thesis
      using i p nm upt by (subst search_names.simps) (simp add: case_prod_beta)
  qed
qed

lemma encode_ascii_bytes: "is_ascii name \<Longrightarrow> encode_ascii name = Inr (ascii_bytes name)"
  by (simp add: encode_ascii_def ascii_bytes_def)

lemma read_export_directory_well_formed:
  assumes wf: "well_formed_exports sys h base x"
    and win: "windows_readable sys h base x"
    and rva: "export_rva = field32 (pe_header x) (if field16 (pe_header x) 24 = 0x10B then 120 else 136)"
  shows "fst (read_export_directory sys h base fn export_rva) = Inr (resolve_windowed base x fn)"
proof -
  let ?ed = "export_dir x"
  let ?n = "length (exportNames x)"
  from wf have ed: "length ?ed = 40" "reads_as sys h (base + int export_rva) ?ed"
    and nf: "field32 ?ed 20 = length (functionTable x)"
    and nn: "field32 ?ed 24 = ?n"
    and rf: "reads_as sys h (base + int (field32 ?ed 28)) (concat (map u32le (functionTable x)))"
    and rp: "reads_as sys h (base + int (field32 ?ed 32)) (concat (map u32le (namePointers x)))"
    and rk: "reads_as sys h (base + int (field32 ?ed 36)) (concat (map u16le (ordinalTable x)))"
    and funs: "list_all (\<lambda>f. f < 2 ^ 32) (functionTable x)"
    and ptrs: "list_all (\<lambda>p. p < 2 ^ 32) (namePointers x)"
    and ords: "list_all (\<lambda>k. k < 2 ^ 16 \<and> k < length (functionTable x)) (ordinalTable x)"
    and len: "length (ordinalTable x) = ?n"
    and named: "list_all2 (\<lambda>p nm. name_at sys h (base + int p) nm) (namePointers x) (exportNames x)"
    unfolding well_formed_exports_def rva by simp_all
  have names: "list_all2 (\<lambda>p nm. window_at sys h (base + int p) nm) (namePointers x) (exportNames x)"
    using win by (simp add: windows_readable_def)
  have nz: "list_all (\<lambda>nm. 0 \<notin> set nm) (exportNames x)"
    using named by (auto simp: list_all_length list_all2_conv_all_nth name_at_def)
  have lps: "length (namePointers x) = ?n"
    using names by (rule list_all2_lengthD)
  have b3: "read_buffer sys h (base + int export_rva) 40 = (True, ?ed)"
    using read_buffer_reads_as [OF ed(2)] ed(1) by simp
  have lf: "length (concat (map u32le (functionTable x))) = length (functionTable x) * 4"
    by (simp add: length_concat_fixed [of u32le 4] length_u32le)
  have lp: "length (concat (map u32le (namePointers x))) = ?n * 4"
    using lps by (simp add: length_concat_fixed [of u32le 4] length_u32le)
  have lk: "length (concat (map u16le (ordinalTable x))) = ?n * 2"
    using len by (simp add: length_concat_fixed [of u16le 2] length_u16le)
  have bf: "snd (read_buffer sys h (base + int (field32 ?ed 28)) (length (functionTable x) * 4))
              = concat (map u32le (functionTable x))"
    using read_buffer_reads_as [OF rf] lf by simp
  have bp: "snd (read_buffer sys h (base + int (field32 ?ed 32)) (?n * 4))
              = concat (map u32le (namePointers x))"
    using read_buffer_reads_as [OF rp] lp by simp
  have bk: "snd (read_buffer sys h (base + int (field32 ?ed 36)) (?n * 2))
              = concat (map u16le (ordinalTable x))"
    using read_buffer_reads_as [OF rk] lk by simp
  have fields: "unpack_from_I ?ed 20 = Inr (length (functionTable x))"
    "unpack_from_I ?ed 24 = Inr ?n"
    "unpack_from_I ?ed 28 = Inr (field32 ?ed 28)"
    "unpack_from_I ?ed 32 = Inr (field32 ?ed 32)"
    "unpack_from_I ?ed 36 = Inr (field32 ?ed 36)"
    using ed(1) nf nn by (simp_all add: unpack_from_I_field32)
  have "fst (search_names sys h base fn (concat (map u32le (namePointers x)))
               (concat (map u16le (ordinalTable x))) (concat (map u32le (functionTable x))) ?n 0)
        = Inr (resolve_windowed base x fn)"
    unfolding resolve_windowed_def
    by (rule search_names_well_formed [OF ptrs ords funs names nz len])
  then show ?thesis
    by (simp add: read_export_directory_def b3 fields bf bp bk Let_def case_prod_beta)
qed

lemma length_split_at_nul: "length (split_at_nul w) \<le> length w"
  by (simp add: split_at_nul_def length_takeWhile_le)

lemma split_at_nul_short:
  assumes "split_at_nul w = fn" and "length fn < length w"
  shows "0 \<in> set w"
proof (rule ccontr)
  assume "0 \<notin> set w"
  then have "takeWhile (\<lambda>b. b \<noteq> 0) w = w"
    by (auto simp: takeWhile_eq_all_conv)
  with assms show False
    by (simp add: split_at_nul_def)
qed

lemma search_names_long:
  assumes long: "128 < length fn" and nd: "length nd = n * 4"
  shows "fst (search_names sys h base fn nd kd fd n i) = Inr None"
proof (induction "n - i" arbitrary: i)
  case 0
  then have "\<not> i < n" by simp
  then show ?case
    by (subst search_names.simps) simp
next
  case (Suc d)
  then have i: "i < n" by simp
  then obtain p where p: "unpack_from_I nd (i * 4) = Inr p"
    using nd by (simp add: unpack_from_I_def)
  have "length (split_at_nul (snd (read_buffer sys h (base + int p) 128))) \<le> 128"
    using length_split_at_nul [of "snd (read_buffer sys h (base + int p) 128)"]
    by (simp add: length_read_buffer)
  with long have ne: "split_at_nul (snd (read_buffer sys h (base + int p) 128)) \<noteq> fn"
    by auto
  have "d = n - Suc i"
    using Suc.hyps(2) by simp
  from Suc.hyps(1) [OF this] show ?case
    using i p ne by (subst search_names.simps) (simp add: case_prod_beta)
qed

lemma search_names_match:
  "fst (search_names sys h base fn nd kd fd n i) = Inr (Some a) \<Longrightarrow>
     \<exists>addr. Call_ReadProcessMemory h addr 128 \<in> set (snd (search_names sys h base fn nd kd fd n i))
          \<and> split_at_nul (snd (read_buffer sys h addr 128)) = fn"
proof (induction "n - i" arbitrary: i)
  case 0
  then have "\<not> i < n" by simp
  with 0(2) show ?case
    by (subst (asm) search_names.simps) simp
next
  case (Suc d)
  then have i: "i < n" by simp
  have d: "d = n - Suc i"
    using Suc.hyps(2) by simp
  show ?case
  proof (cases "unpack_from_I nd (i * 4)")
    case (Inl e)
    with Suc.prems i show ?thesis
      by (subst (asm) search_names.simps) simp
  next
    case (Inr p)
    show ?thesis
    proof (cases "split_at_nul (snd (read_buffer sys h (base + int p) 128)) = fn")
      case True
      have "Call_ReadProcessMemory h (base + int p) 128
              \<in> set (snd (search_names sys h base fn nd kd fd n i))"
        using i Inr True
        by (subst search_names.simps) (simp add: case_prod_beta Let_def split: sum.splits)
      with True show ?thesis by blast
    next
      case False
      with Suc.prems i Inr
      have "fst (search_names sys h base fn nd kd fd n (Suc i)) = Inr (Some a)"
        by (subst (asm) search_names.simps) (simp add: case_prod_beta)
      from Suc.hyps(1) [OF d this] obtain addr where
        a: "Call_ReadProcessMemory h addr 128 \<in> set (snd (search_names sys h base fn nd kd fd n (Suc i)))"
          "split_at_nul (snd (read_buffer sys h addr 128)) = fn"
        by blast
      have "set (snd (search_names sys h base fn nd kd fd n (Suc i)))
              \<subseteq> set (snd (search_names sys h base fn nd kd fd n i))"
        using i Inr False
        by (subst (2) search_names.simps) (auto simp: case_prod_beta)
      with a show ?thesis by blast
    qed
  qed
qed

lemma read_export_directory_long:
  "128 < length fn \<Longrightarrow> fst (read_export_directory sys h base fn export_rva) = Inr None"
  by (auto simp: read_export_directory_def Let_def case_prod_beta unpack_from_I_def
        length_read_buffer search_names_long split: sum.splits)

lemma read_pe_header_long:
  "128 < length fn \<Longrightarrow> fst (read_pe_header sys h base fn e_lfanew) = Inr None"
  by (auto simp: read_pe_header_def Let_def case_prod_beta unpack_from_I_def unpack_from_H_def
        length_read_buffer read_export_directory_long split: sum.splits option.splits)

lemma find_remote_export_long:
  "is_ascii name \<Longrightarrow> 128 < length name \<Longrightarrow> fst (find_remote_export sys h base name) = Inr None"
  by (auto simp: find_remote_export_def encode_ascii_def ascii_bytes_def Let_def case_prod_beta
        unpack_from_I_def length_read_buffer read_pe_header_long split: sum.splits)

lemma read_export_directory_match:
  "fst (read_export_directory sys h base fn export_rva) = Inr (Some a) \<Longrightarrow>
     \<exists>addr. Call_ReadProcessMemory h addr 128 \<in> set (snd (read_export_directory sys h base fn export_rva))
          \<and> split_at_nul (snd (read_buffer sys h addr 128)) = fn"
  by (auto simp: read_export_directory_def Let_def case_prod_beta
        split: sum.splits if_splits dest!: search_names_match)

lemma read_pe_header_match:
  "fst (read_pe_header sys h base fn e_lfanew) = Inr (Some a) \<Longrightarrow>
     \<exists>addr. Call_ReadProcessMemory h addr 128 \<in> set (snd (read_pe_header sys h base fn e_lfanew))
          \<and> split_at_nul (snd (read_buffer sys h addr 128)) = fn"
  by (auto simp: read_pe_header_def Let_def case_prod_beta
        split: sum.splits option.splits if_splits dest!: read_export_directory_match)

lemma find_remote_export_match:
  "fst (find_remote_export sys h base name) = Inr (Some a) \<Longrightarrow>
     \<exists>addr. Call_ReadProcessMemory h addr 128 \<in> set (snd (find_remote_export sys h base name))
          \<and> split_at_nul (snd (read_buffer sys h addr 128)) = ascii_bytes name"
  by (auto simp: find_remote_export_def encode_ascii_def Let_def case_prod_beta
        split: sum.splits if_splits dest!: read_pe_header_match)

lemma le_bytes_zeros: "le_bytes (replicate n 0) = 0"
  by (induction n) auto

lemmas inject_defs = inject_dll_def inject_body_def resolve_load_library_def
  start_remote_thread_def wait_for_thread_def is_target_32bit_def is_self_64bit_def
  find_remote_module_base_def WAIT_OBJECT_0_def encode_utf8_def main_def exit_status_def
  lower_def lower_char_def c_int_def

lemmas os_defs = same_mode_os_def same_mode_64_os_def load_rejected_os_def timeout_os_def
  failed_write_os_def high_base_os_def

lemma search_names_events:
  "e \<in> set (snd (search_names sys h base fn nd kd fd n i)) \<Longrightarrow>
     \<exists>addr k. e = Call_ReadProcessMemory h addr k"
proof (induction "n - i" arbitrary: i)
  case 0
  then have "\<not> i < n" by simp
  with 0(2) show ?case
    by (subst (asm) search_names.simps) simp
next
  case (Suc d)
  then have i: "i < n" by simp
  have d: "d = n - Suc i"
    using Suc.hyps(2) by simp
  from Suc.prems i Suc.hyps(1) [OF d] show ?case
    by (subst (asm) search_names.simps)
       (auto simp: Let_def case_prod_beta split: sum.splits if_splits)
qed

lemma read_export_directory_events:
  "e \<in> set (snd (read_export_directory sys h base fn export_rva)) \<Longrightarrow>
     \<exists>addr k. e = Call_ReadProcessMemory h addr k"
  by (auto simp: read_export_directory_def Let_def case_prod_beta
        split: sum.splits if_splits dest: search_names_events)

lemma read_pe_header_events:
  "e \<in> set (snd (read_pe_header sys h base fn e_lfanew)) \<Longrightarrow>
     \<exists>addr k. e = Call_ReadProcessMemory h addr k"
  by (auto simp: read_pe_header_def Let_def case_prod_beta
        split: sum.splits option.splits if_splits dest: read_export_directory_events)

lemma find_remote_export_events:
  "e \<in> set (snd (find_remote_export sys h base name)) \<Longrightarrow>
     \<exists>addr k. e = Call_ReadProcessMemory h addr k"
  by (auto simp: find_remote_export_def Let_def case_prod_beta
        split: sum.splits if_splits dest: read_pe_header_events)

lemma find_remote_export_eventsD:
  "find_remote_export sys h base name = (r, t) \<Longrightarrow> e \<in> set t \<Longrightarrow>
     \<exists>addr k. e = Call_ReadProcessMemory h addr k"
  using find_remote_export_events [of e sys h base name] by simp

lemma resolve_load_library_events:
  "e \<in> set (snd (resolve_load_library sys pid h cross_arch)) \<Longrightarrow>
     (\<exists>addr k. e = Call_ReadProcessMemory h addr k)
     \<or> e = Call_CreateToolhelp32Snapshot pid
     \<or> (\<exists>s. e = Call_CloseHandle s \<and> cross_arch)
     \<or> (e = Call_GetModuleHandleW \<or> (\<exists>m. e = Call_GetProcAddress m)) \<and> \<not> cross_arch
     \<or> e = Print Error_No_kernel32_in_target
     \<or> e = Print Error_No_LoadLibraryA_in_target
     \<or> e = Print Error_GetProcAddress_failed"
  by (auto simp: resolve_load_library_def find_remote_module_base_def Let_def
        split: prod.splits sum.splits option.splits if_splits dest: find_remote_export_eventsD)

lemma wait_for_thread_events:
  "e \<in> set (snd (wait_for_thread sys ht)) \<Longrightarrow>
     e = Print Info_Waiting \<or> e = Call_WaitForSingleObject ht 10000
     \<or> e = Call_GetExitCodeThread ht \<or> e = Call_CloseHandle ht
     \<or> (\<exists>c. e = Print (Success_DLL_loaded c)) \<or> e = Print Warning_LoadLibrary_NULL
     \<or> (\<exists>w. e = Print (Warning_Wait_timed_out w))"
  by (auto simp: wait_for_thread_def Let_def split: if_splits)

lemma start_remote_thread_events:
  "e \<in> set (snd (start_remote_thread sys h addr mem)) \<Longrightarrow>
     e = Call_CreateRemoteThread h addr mem
     \<or> e = Print Error_CreateRemoteThread_failed
     \<or> (\<exists>ht. e = Print (Info_Remote_thread_created ht))
     \<or> e = Print Info_Waiting \<or> (\<exists>ht. e = Call_WaitForSingleObject ht 10000)
     \<or> (\<exists>ht. e = Call_GetExitCodeThread ht) \<or> (\<exists>ht. e = Call_CloseHandle ht)
     \<or> (\<exists>c. e = Print (Success_DLL_loaded c)) \<or> e = Print Warning_LoadLibrary_NULL
     \<or> (\<exists>w. e = Print (Warning_Wait_timed_out w))"
  by (auto simp: start_remote_thread_def Let_def case_prod_beta split: if_splits
        dest: wait_for_thread_events)




lemma resolve_load_library_eventsD:
  "resolve_load_library sys pid h cross_arch = (r, t) \<Longrightarrow> e \<in> set t \<Longrightarrow>
     (\<exists>addr k. e = Call_ReadProcessMemory h addr k)
     \<or> e = Call_CreateToolhelp32Snapshot pid
     \<or> (\<exists>s. e = Call_CloseHandle s \<and> cross_arch)
     \<or> (e = Call_GetModuleHandleW \<or> (\<exists>m. e = Call_GetProcAddress m)) \<and> \<not> cross_arch
     \<or> e = Print Error_No_kernel32_in_target
     \<or> e = Print Error_No_LoadLibraryA_in_target
     \<or> e = Print Error_GetProcAddress_failed"
  using resolve_load_library_events [of e sys pid h cross_arch] by simp

lemma start_remote_thread_eventsD:
  "start_remote_thread sys h addr mem = (r, t) \<Longrightarrow> e \<in> set t \<Longrightarrow>
     e = Call_CreateRemoteThread h addr mem
     \<or> e = Print Error_CreateRemoteThread_failed
     \<or> (\<exists>ht. e = Print (Info_Remote_thread_created ht))
     \<or> e = Print Info_Waiting \<or> (\<exists>ht. e = Call_WaitForSingleObject ht 10000)
     \<or> (\<exists>ht. e = Call_GetExitCodeThread ht) \<or> (\<exists>ht. e = Call_CloseHandle ht)
     \<or> (\<exists>c. e = Print (Success_DLL_loaded c)) \<or> e = Print Warning_LoadLibrary_NULL
     \<or> (\<exists>w. e = Print (Warning_Wait_timed_out w))"
  using start_remote_thread_events [of e sys h addr mem] by simp

lemma high_base_run:
  "inject_dll high_base_os 4321 ''overlay.dll'' =
     (Inr False,
      [Print (Info_Opening_process 4321), Call_OpenProcess 4321, Call_IsWow64Process 100,
       Print (Info_Injector True), Print (Info_Target True), Print Info_Cross_architecture,
       Call_VirtualAllocEx 100 12, Print (Info_Allocated 12 0x20000),
       Call_WriteProcessMemory 100 0x20000 (ascii_bytes ''overlay.dll'' @ [0]),
       Print (Info_Wrote 12),
       Call_CreateToolhelp32Snapshot 4321, Call_CloseHandle 200,
       Call_ReadProcessMemory 100 0x175000000 64,
       Call_ReadProcessMemory 100 0x175000040 256,
       Call_ReadProcessMemory 100 0x175000140 40,
       Call_ReadProcessMemory 100 0x175000170 8,
       Call_ReadProcessMemory 100 0x175000178 4,
       Call_ReadProcessMemory 100 0x175000168 8,
       Call_ReadProcessMemory 100 0x175000180 128,
       Call_ReadProcessMemory 100 0x175000280 128,
       Print (Info_LoadLibraryA_at 0x175002000), Print Error_Address_exceeds_32bit,
       Call_CloseHandle 100])"
  by (simp add: inject_defs os_defs eval_defs char_of_eq_iff)

lemma find_remote_export_windowed:
  assumes wf: "well_formed_exports sys h base x" and win: "windows_readable sys h base x"
    and asc: "is_ascii name"
  shows "fst (find_remote_export sys h base name) = Inr (resolve_windowed base x (ascii_bytes name))"
proof -
  let ?dos = "dos_header x" and ?pe = "pe_header x"
  let ?rva = "field32 ?pe (if field16 ?pe 24 = 0x10B then 120 else 136)"
  from wf have dos: "length ?dos = 64" "reads_as sys h base ?dos"
    and pe: "length ?pe = 256" "reads_as sys h (base + int (field32 ?dos 60)) ?pe"
    and sig: "field32 ?pe 0 = 0x4550"
    and magic: "field16 ?pe 24 = 0x10B \<and> field32 ?pe 120 \<noteq> 0
                 \<or> field16 ?pe 24 = 0x20B \<and> field32 ?pe 136 \<noteq> 0"
    unfolding well_formed_exports_def by simp_all
  have b1: "read_buffer sys h base 64 = (True, ?dos)"
    using read_buffer_reads_as [OF dos(2)] dos(1) by simp
  have b2: "read_buffer sys h (base + int (field32 ?dos 60)) 256 = (True, ?pe)"
    using read_buffer_reads_as [OF pe(2)] pe(1) by simp
  have u1: "unpack_from_I ?dos 60 = Inr (field32 ?dos 60)"
    using dos(1) by (simp add: unpack_from_I_field32)
  have u2: "unpack_from_I ?pe 0 = Inr 0x4550" "unpack_from_H ?pe 24 = Inr (field16 ?pe 24)"
    "unpack_from_I ?pe 120 = Inr (field32 ?pe 120)" "unpack_from_I ?pe 136 = Inr (field32 ?pe 136)"
    using pe(1) sig by (simp_all add: unpack_from_I_field32 unpack_from_H_field16)
  have dir: "fst (read_export_directory sys h base (ascii_bytes name) ?rva)
               = Inr (resolve_windowed base x (ascii_bytes name))"
    by (rule read_export_directory_well_formed [OF wf win refl])
  have "fst (read_pe_header sys h base (ascii_bytes name) (field32 ?dos 60))
          = Inr (resolve_windowed base x (ascii_bytes name))"
    using magic dir by (auto simp: read_pe_header_def b2 u2 Let_def case_prod_beta)
  then show ?thesis
    by (simp add: find_remote_export_def encode_ascii_bytes [OF asc] b1 u1 Let_def case_prod_beta)
qed

lemma find_first_index:
  assumes "i < n" and "P i" and "\<forall>j<i. \<not> P j"
  shows "find P [0..<n] = Some i"
  using assms by (auto simp: find_Some_iff intro!: exI [of _ i])

lemma resolve_windowed_first:
  assumes "i < length (exportNames x)" and "take 128 (exportNames x ! i) = fn"
    and "\<forall>j<i. take 128 (exportNames x ! j) \<noteq> fn"
  shows "resolve_windowed base x fn = Some (base + int (functionTable x ! (ordinalTable x ! i)))"
  using find_first_index [of i "length (exportNames x)" "\<lambda>j. take 128 (exportNames x ! j) = fn"] assms
  by (simp add: resolve_windowed_def)

section \<open>The claims\<close>

text \<open>
  C1. The claim: a failed or short remote read at any step aborts the call and
  \<open>find_remote_export\<close> returns \<open>None\<close>, the three bulk array reads and each name read
  included. The source tests the result of \<open>ReadProcessMemory\<close> for the first three
  reads only (DOS header, PE header, export directory). In the run below the read of the
  ordinal array at \<open>base + 0x178\<close> fails; the function goes on with the zero-filled
  buffer, still reads both names, takes ordinal 0 for \<open>LoadLibraryA\<close> and returns the
  address of the other export, \<open>base + 0x1000\<close>, instead of \<open>None\<close>.
\<close>

theorem C1_unchecked_array_read:
  "\<not> fst (ReadProcessMemory (synthetic_os 0x75000000 good_image [(0x178, 0x17C)]) 100 0x75000178 4)
   \<and> find_remote_export (synthetic_os 0x75000000 good_image [(0x178, 0x17C)]) 100 0x75000000
        ''LoadLibraryA''
      = (Inr (Some 0x75001000),
         [Call_ReadProcessMemory 100 0x75000000 64,
          Call_ReadProcessMemory 100 0x75000040 256,
          Call_ReadProcessMemory 100 0x75000140 40,
          Call_ReadProcessMemory 100 0x75000170 8,
          Call_ReadProcessMemory 100 0x75000178 4,
          Call_ReadProcessMemory 100 0x75000168 8,
          Call_ReadProcessMemory 100 0x75000180 128,
          Call_ReadProcessMemory 100 0x75000280 128])"
  by (simp add: eval_defs le_bytes_zeros)

text \<open>
  C2 (as amended). For every well-formed export directory that is readable through the
  process handle and in which the 128 bytes from each name pointer on are readable as
  well, and for every ASCII symbol name, \<open>find_remote_export\<close> returns
  \<open>base + functionTable[ordinalTable[i]]\<close> for the first index \<open>i\<close>, in the order of the
  name array, whose name cut to its first 128 bytes equals the symbol name byte for byte,
  and \<open>None\<close> when no entry does.
\<close>

theorem C2_amended:
  assumes wf: "well_formed_exports sys h base x" and win: "windows_readable sys h base x"
    and asc: "is_ascii name"
  shows "fst (find_remote_export sys h base name) = Inr (resolve_windowed base x (ascii_bytes name))"
  using wf win asc by (rule find_remote_export_windowed)

theorem C2_amended_witness:
  "well_formed_exports (synthetic_os 0x75000000 good_image []) 100 0x75000000
      (good_exports good_image (ascii_bytes ''Beep'') (ascii_bytes ''LoadLibraryA''))
   \<and> windows_readable (synthetic_os 0x75000000 good_image []) 100 0x75000000
      (good_exports good_image (ascii_bytes ''Beep'') (ascii_bytes ''LoadLibraryA''))
   \<and> is_ascii ''LoadLibraryA''
   \<and> fst (find_remote_export (synthetic_os 0x75000000 good_image []) 100 0x75000000 ''LoadLibraryA'')
       = Inr (Some 0x75002000)"
proof -
  have wf: "well_formed_exports (synthetic_os 0x75000000 good_image []) 100 0x75000000
      (good_exports good_image (ascii_bytes ''Beep'') (ascii_bytes ''LoadLibraryA''))"
    by (simp add: eval_defs spec_defs)
  have win: "windows_readable (synthetic_os 0x75000000 good_image []) 100 0x75000000
      (good_exports good_image (ascii_bytes ''Beep'') (ascii_bytes ''LoadLibraryA''))"
    by (simp add: eval_defs spec_defs)
  have asc: "is_ascii ''LoadLibraryA''"
    by (simp add: is_ascii_def)
  have "resolve_windowed 0x75000000
          (good_exports good_image (ascii_bytes ''Beep'') (ascii_bytes ''LoadLibraryA''))
          (ascii_bytes ''LoadLibraryA'') = Some 0x75002000"
    by (simp add: resolve_windowed_def good_exports_def ascii_bytes_def)
  with C2_amended [OF wf win asc] wf win asc show ?thesis
    by simp
qed

text \<open>
  C2 as stated fails in two ways. A name that does not fit the window of 128 bytes is not
  found: the first directory below is well formed, its second name is 129 letters \<open>A\<close>
  and equals the requested symbol, the claimed result is \<open>base + 0x2000\<close>, and the
  function returns \<open>None\<close>. A name whose window cannot be read is not found either: the
  second image ends right after \<open>LoadLibraryA\<close> and its \<open>NUL\<close>, the name itself is
  readable and the directory well formed, and the function returns \<open>None\<close>.
\<close>

theorem C2_counterexample:
  "well_formed_exports (synthetic_os 0x75000000 long_name_image []) 100 0x75000000
      (good_exports long_name_image (ascii_bytes ''Beep'') (ascii_bytes long_name))
   \<and> is_ascii long_name
   \<and> resolve_claimed 0x75000000
        (good_exports long_name_image (ascii_bytes ''Beep'') (ascii_bytes long_name))
        (ascii_bytes long_name) = Some 0x75002000
   \<and> fst (find_remote_export (synthetic_os 0x75000000 long_name_image []) 100 0x75000000 long_name)
       = Inr None
   \<and> well_formed_exports (synthetic_os 0x75000000 truncated_image []) 100 0x75000000
      (good_exports truncated_image (ascii_bytes ''Beep'') (ascii_bytes ''LoadLibraryA''))
   \<and> is_ascii ''LoadLibraryA''
   \<and> resolve_claimed 0x75000000
        (good_exports truncated_image (ascii_bytes ''Beep'') (ascii_bytes ''LoadLibraryA''))
        (ascii_bytes ''LoadLibraryA'') = Some 0x75002000
   \<and> fst (find_remote_export (synthetic_os 0x75000000 truncated_image []) 100 0x75000000
             ''LoadLibraryA'') = Inr None"
proof (intro conjI)
  show "well_formed_exports (synthetic_os 0x75000000 long_name_image []) 100 0x75000000
      (good_exports long_name_image (ascii_bytes ''Beep'') (ascii_bytes long_name))"
    by (simp add: eval_defs spec_defs long_name_image_def long_name_def Cons_eq_replicate)
  show "is_ascii long_name"
    by (simp add: is_ascii_def long_name_def list_all_iff)
  show "resolve_claimed 0x75000000
        (good_exports long_name_image (ascii_bytes ''Beep'') (ascii_bytes long_name))
        (ascii_bytes long_name) = Some 0x75002000"
    by (simp add: resolve_claimed_def good_exports_def ascii_bytes_def long_name_def Cons_eq_replicate)
  show "fst (find_remote_export (synthetic_os 0x75000000 long_name_image []) 100 0x75000000 long_name)
       = Inr None"
    by (simp add: eval_defs long_name_image_def long_name_def list_all_iff Cons_eq_replicate)
  show "well_formed_exports (synthetic_os 0x75000000 truncated_image []) 100 0x75000000
      (good_exports truncated_image (ascii_bytes ''Beep'') (ascii_bytes ''LoadLibraryA''))"
    by (simp add: eval_defs spec_defs truncated_image_def)
  show "is_ascii ''LoadLibraryA''"
    by (simp add: is_ascii_def)
  show "resolve_claimed 0x75000000
        (good_exports truncated_image (ascii_bytes ''Beep'') (ascii_bytes ''LoadLibraryA''))
        (ascii_bytes ''LoadLibraryA'') = Some 0x75002000"
    by (simp add: resolve_claimed_def good_exports_def ascii_bytes_def)
  show "fst (find_remote_export (synthetic_os 0x75000000 truncated_image []) 100 0x75000000
             ''LoadLibraryA'') = Inr None"
    by (simp add: eval_defs truncated_image_def)
qed

text \<open>
  C3. The claim: on every exit path after the process was opened the process handle is
  closed, and so is the thread handle whenever a remote thread was created. The
  \<open>finally\<close> clause closes the process handle on every path, but the path on which the
  thread ends with exit code 0 returns before \<open>CloseHandle(h_thread)\<close>. In the run below
  the thread 300 is created, \<open>LoadLibraryA\<close> returns \<open>NULL\<close>, and the trace ends with the
  process handle 100 closed and the thread handle 300 never closed.
\<close>

theorem C3_thread_handle_leak:
  "inject_dll load_rejected_os 4321 ''overlay.dll'' =
     (Inr False,
      [Print (Info_Opening_process 4321), Call_OpenProcess 4321, Call_IsWow64Process 100,
       Print (Info_Injector False), Print (Info_Target True),
       Call_VirtualAllocEx 100 12, Print (Info_Allocated 12 0x20000),
       Call_WriteProcessMemory 100 0x20000 (ascii_bytes ''overlay.dll'' @ [0]),
       Print (Info_Wrote 12), Call_GetModuleHandleW, Call_GetProcAddress 0x75000000,
       Print (Info_LoadLibraryA_at 0x75002000),
       Call_CreateRemoteThread 100 0x75002000 0x20000, Print (Info_Remote_thread_created 300),
       Print Info_Waiting, Call_WaitForSingleObject 300 10000, Call_GetExitCodeThread 300,
       Print Warning_LoadLibrary_NULL, Call_CloseHandle 100])
   \<and> Call_CloseHandle 300 \<notin> set (snd (inject_dll load_rejected_os 4321 ''overlay.dll''))"
  by (simp add: inject_defs os_defs synthetic_os_def ascii_bytes_def)

text \<open>
  C4. The claim: when the wait of 10 seconds ends without the thread having signalled,
  the attempt is reported as a timeout and the program exits with status 1, both handles
  closed; status 0 only on success. In the run below \<open>WaitForSingleObject\<close> answers
  \<open>WAIT_TIMEOUT\<close> (0x102): the warning is printed and both handles are closed, but
  \<open>inject_dll\<close> returns \<open>True\<close>, \<open>main\<close> prints that the injection was successful and the
  status is 0.
\<close>

theorem C4_timeout_exit_status:
  "fst (inject_dll timeout_os 4321 ''overlay.dll'') = Inr True
   \<and> fst (main timeout_os [''inject.py'']) = Inr 0
   \<and> exit_status (fst (main timeout_os [''inject.py''])) = 0
   \<and> Print (Warning_Wait_timed_out 0x102) \<in> set (snd (main timeout_os [''inject.py'']))
   \<and> Print Info_Injection_successful \<in> set (snd (main timeout_os [''inject.py'']))
   \<and> Call_CloseHandle 300 \<in> set (snd (main timeout_os [''inject.py'']))
   \<and> Call_CloseHandle 100 \<in> set (snd (main timeout_os [''inject.py'']))"
  by (simp add: inject_defs os_defs synthetic_os_def)

text \<open>
  C5. When the first two reads succeed and the signature at \<open>base + e_lfanew\<close> is not
  0x4550, or the magic is neither 0x10B nor 0x20B, or the export directory RVA of the
  layout that the magic selects is zero, \<open>find_remote_export\<close> returns \<open>None\<close> and the two
  header reads are the only remote reads of the call: nothing is read after the failed
  check, and no export directory is read when the RVA is zero. The symbol name is an ASCII
  string, as \<open>encode('ascii')\<close> requires.
\<close>

theorem C5_malformed_header:
  assumes asc: "is_ascii function_name"
    and r1: "read_buffer sys h base 64 = (True, dos)"
    and r2: "read_buffer sys h (base + int (field32 dos 60)) 256 = (True, pe)"
    and bad: "field32 pe 0 \<noteq> 0x4550
              \<or> (field16 pe 24 \<noteq> 0x10B \<and> field16 pe 24 \<noteq> 0x20B)
              \<or> (field16 pe 24 = 0x10B \<and> field32 pe 120 = 0)
              \<or> (field16 pe 24 = 0x20B \<and> field32 pe 136 = 0)"
  shows "find_remote_export sys h base function_name =
           (Inr None, [Call_ReadProcessMemory h base 64,
                       Call_ReadProcessMemory h (base + int (field32 dos 60)) 256])"
proof -
  have ld: "length dos = 64"
    using length_read_buffer [of sys h base 64] r1 by simp
  have lp: "length pe = 256"
    using length_read_buffer [of sys h "base + int (field32 dos 60)" 256] r2 by simp
  have u1: "unpack_from_I dos 60 = Inr (field32 dos 60)"
    using ld by (simp add: unpack_from_I_field32)
  have u2: "unpack_from_I pe 0 = Inr (field32 pe 0)" "unpack_from_H pe 24 = Inr (field16 pe 24)"
    "unpack_from_I pe 120 = Inr (field32 pe 120)" "unpack_from_I pe 136 = Inr (field32 pe 136)"
    using lp by (simp_all add: unpack_from_I_field32 unpack_from_H_field16)
  have "read_pe_header sys h base (ascii_bytes function_name) (field32 dos 60)
          = (Inr None, [Call_ReadProcessMemory h (base + int (field32 dos 60)) 256])"
    using bad by (auto simp: read_pe_header_def r2 u2 Let_def)
  then show ?thesis
    by (simp add: find_remote_export_def encode_ascii_bytes [OF asc] r1 u1 Let_def)
qed

theorem C5_malformed_header_witness:
  "find_remote_export (synthetic_os 0x75000000 bad_signature_image []) 100 0x75000000 ''LoadLibraryA''
     = (Inr None, [Call_ReadProcessMemory 100 0x75000000 64, Call_ReadProcessMemory 100 0x75000040 256])
   \<and> find_remote_export (synthetic_os 0x75000000 bad_magic_image []) 100 0x75000000 ''LoadLibraryA''
     = (Inr None, [Call_ReadProcessMemory 100 0x75000000 64, Call_ReadProcessMemory 100 0x75000040 256])
   \<and> find_remote_export (synthetic_os 0x75000000 no_exports_image []) 100 0x75000000 ''LoadLibraryA''
     = (Inr None, [Call_ReadProcessMemory 100 0x75000000 64, Call_ReadProcessMemory 100 0x75000040 256])"
proof -
  have asc: "is_ascii ''LoadLibraryA''"
    by (simp add: is_ascii_def)
  let ?dos = "take 64 good_image"
  have e: "field32 ?dos 60 = 64"
    by (simp add: eval_defs field32_def)
  have a1: "read_buffer (synthetic_os 0x75000000 bad_signature_image []) 100 0x75000000 64 = (True, ?dos)"
    and a2: "read_buffer (synthetic_os 0x75000000 bad_signature_image []) 100
               (0x75000000 + int (field32 ?dos 60)) 256 = (True, take 256 (drop 64 bad_signature_image))"
    and a3: "field32 (take 256 (drop 64 bad_signature_image)) 0 \<noteq> 0x4550"
    unfolding e by (simp_all add: eval_defs bad_signature_image_def field32_def)
  have b1: "read_buffer (synthetic_os 0x75000000 bad_magic_image []) 100 0x75000000 64 = (True, ?dos)"
    and b2: "read_buffer (synthetic_os 0x75000000 bad_magic_image []) 100
               (0x75000000 + int (field32 ?dos 60)) 256 = (True, take 256 (drop 64 bad_magic_image))"
    and b3: "field16 (take 256 (drop 64 bad_magic_image)) 24 \<noteq> 0x10B
             \<and> field16 (take 256 (drop 64 bad_magic_image)) 24 \<noteq> 0x20B"
    unfolding e by (simp_all add: eval_defs bad_magic_image_def field16_def)
  have c1: "read_buffer (synthetic_os 0x75000000 no_exports_image []) 100 0x75000000 64 = (True, ?dos)"
    and c2: "read_buffer (synthetic_os 0x75000000 no_exports_image []) 100
               (0x75000000 + int (field32 ?dos 60)) 256 = (True, take 256 (drop 64 no_exports_image))"
    and c3: "field16 (take 256 (drop 64 no_exports_image)) 24 = 0x10B
             \<and> field32 (take 256 (drop 64 no_exports_image)) 120 = 0"
    unfolding e by (simp_all add: eval_defs no_exports_image_def field16_def field32_def)
  show ?thesis
    using C5_malformed_header [OF asc a1 a2] a3
      C5_malformed_header [OF asc b1 b2] b3
      C5_malformed_header [OF asc c1 c2] c3
    by (simp add: e)
qed

text \<open>
  C6. The claim: for all contents of the remote reads \<open>find_remote_export\<close> returns an
  address or \<open>None\<close> and raises nothing, the index into the function array staying
  within the buffer that was read. The source indexes the function array with the ordinal
  it fetched, without comparing it to \<open>num_functions\<close>. In the run below the directory
  has two functions and the ordinal of \<open>LoadLibraryA\<close> is 7: \<open>struct.unpack_from\<close> reads
  at offset 28 of a buffer of 8 bytes and raises \<open>struct.error\<close>.
\<close>

theorem C6_ordinal_out_of_range:
  "fst (find_remote_export (synthetic_os 0x75000000 bad_ordinal_image []) 100 0x75000000
          ''LoadLibraryA'') = Inl StructError"
  by (simp add: eval_defs bad_ordinal_image_def)

text \<open>
  C7. \<open>WriteProcessMemory\<close> answers \<open>TRUE\<close> only when it has written all the bytes it
  was given. Under this contract, whenever the write step is reached and fewer bytes are
  written than the null-terminated payload path holds, \<open>inject_dll\<close> reports the failed
  write, closes the process handle and returns \<open>False\<close>: the trace ends there, with no
  call of the address resolution and no remote thread.
\<close>

theorem C7_short_write_aborts:
  assumes exists: "path_exists sys p"
    and h: "h = OpenProcess sys pid" "h \<noteq> 0"
    and bs: "bs = encode_utf8 (abspath sys p) @ [0]"
    and mem: "mem = VirtualAllocEx sys h (length bs)" "mem \<noteq> 0"
    and contract: "\<forall>h a bs. fst (WriteProcessMemory sys h a bs)
                     \<longrightarrow> snd (WriteProcessMemory sys h a bs) = length bs"
    and short: "snd (WriteProcessMemory sys h mem bs) < length bs"
  shows "inject_dll sys pid p =
           (Inr False,
            [Print (Info_Opening_process pid), Call_OpenProcess pid, Call_IsWow64Process h,
             Print (Info_Injector (is_self_64bit sys)), Print (Info_Target (IsWow64Process sys h))]
            @ (if is_self_64bit sys \<and> IsWow64Process sys h then [Print Info_Cross_architecture] else [])
            @ [Call_VirtualAllocEx h (length bs), Print (Info_Allocated (length bs) mem),
               Call_WriteProcessMemory h mem bs, Print Error_Write_failed, Call_CloseHandle h])"
proof -
  have "\<not> fst (WriteProcessMemory sys h mem bs)"
    using contract short by auto
  then show ?thesis
    using exists h bs mem
    by (simp add: inject_dll_def inject_body_def is_target_32bit_def Let_def case_prod_beta)
qed

theorem C7_short_write_aborts_witness:
  "path_exists failed_write_os ''overlay.dll''
   \<and> OpenProcess failed_write_os 4321 = 100
   \<and> VirtualAllocEx failed_write_os 100 12 = 0x20000
   \<and> WriteProcessMemory failed_write_os 100 0x20000 (ascii_bytes ''overlay.dll'' @ [0]) = (False, 3)
   \<and> WriteProcessMemory failed_write_os 100 0x30000 (ascii_bytes ''overlay.dll'' @ [0]) = (True, 12)
   \<and> length (ascii_bytes ''overlay.dll'' @ [0]) = 12
   \<and> inject_dll failed_write_os 4321 ''overlay.dll'' =
       (Inr False,
        [Print (Info_Opening_process 4321), Call_OpenProcess 4321, Call_IsWow64Process 100,
         Print (Info_Injector False), Print (Info_Target True),
         Call_VirtualAllocEx 100 12, Print (Info_Allocated 12 0x20000),
         Call_WriteProcessMemory 100 0x20000 (ascii_bytes ''overlay.dll'' @ [0]),
         Print Error_Write_failed, Call_CloseHandle 100])"
proof -
  let ?bs = "encode_utf8 (abspath failed_write_os ''overlay.dll'') @ [0]"
  have bs: "?bs = ascii_bytes ''overlay.dll'' @ [0]"
    by (simp add: os_defs synthetic_os_def encode_utf8_def ascii_bytes_def)
  have contract: "\<forall>h a bs. fst (WriteProcessMemory failed_write_os h a bs)
          \<longrightarrow> snd (WriteProcessMemory failed_write_os h a bs) = length bs"
    by (simp add: os_defs synthetic_os_def)
  have env: "path_exists failed_write_os ''overlay.dll''"
    "OpenProcess failed_write_os 4321 = 100"
    "VirtualAllocEx failed_write_os 100 12 = 0x20000"
    "WriteProcessMemory failed_write_os 100 0x20000 (ascii_bytes ''overlay.dll'' @ [0]) = (False, 3)"
    "WriteProcessMemory failed_write_os 100 0x30000 (ascii_bytes ''overlay.dll'' @ [0]) = (True, 12)"
    "length (ascii_bytes ''overlay.dll'' @ [0]) = 12"
    "is_self_64bit failed_write_os = False" "IsWow64Process failed_write_os 100 = True"
    by (simp_all add: os_defs synthetic_os_def ascii_bytes_def is_self_64bit_def)
  from C7_short_write_aborts [where sys = failed_write_os and p = "''overlay.dll''" and pid = 4321
      and h = 100 and bs = "ascii_bytes ''overlay.dll'' @ [0]" and mem = "0x20000"] bs env contract
  show ?thesis
    by simp
qed

text \<open>
  C8. Whenever the injector is 64-bit and the target 32-bit, and the address resolved for
  \<open>LoadLibraryA\<close> (the one the run reports in its line \<open>LoadLibraryA at\<close>) exceeds
  0xFFFFFFFF, \<open>inject_dll\<close> returns \<open>False\<close>, reports the failure with a message of its
  own and never calls \<open>CreateRemoteThread\<close>.
\<close>

theorem C8_range_guard:
  assumes cross: "is_self_64bit sys \<and> IsWow64Process sys (OpenProcess sys pid)"
    and resolved: "Print (Info_LoadLibraryA_at a) \<in> set (snd (inject_dll sys pid p))"
    and high: "a > 0xFFFFFFFF"
  shows "fst (inject_dll sys pid p) = Inr False
       \<and> Print Error_Address_exceeds_32bit \<in> set (snd (inject_dll sys pid p))
       \<and> (\<forall>h s x. Call_CreateRemoteThread h s x \<notin> set (snd (inject_dll sys pid p)))"
  using assms
  by (auto simp: inject_dll_def inject_body_def is_target_32bit_def
        Let_def split: if_splits prod.splits sum.splits option.splits
        dest: resolve_load_library_eventsD start_remote_thread_eventsD)

theorem C8_range_guard_witness:
  "is_self_64bit high_base_os \<and> IsWow64Process high_base_os (OpenProcess high_base_os 4321)
   \<and> Print (Info_LoadLibraryA_at 0x175002000) \<in> set (snd (inject_dll high_base_os 4321 ''overlay.dll''))
   \<and> (0x175002000 :: int) > 0xFFFFFFFF
   \<and> fst (inject_dll high_base_os 4321 ''overlay.dll'') = Inr False
   \<and> Print Error_Address_exceeds_32bit \<in> set (snd (inject_dll high_base_os 4321 ''overlay.dll''))
   \<and> (\<forall>h s x. Call_CreateRemoteThread h s x \<notin> set (snd (inject_dll high_base_os 4321 ''overlay.dll'')))"
proof -
  have cross: "is_self_64bit high_base_os \<and> IsWow64Process high_base_os (OpenProcess high_base_os 4321)"
    by (simp add: is_self_64bit_def high_base_os_def synthetic_os_def)
  have resolved: "Print (Info_LoadLibraryA_at 0x175002000)
                    \<in> set (snd (inject_dll high_base_os 4321 ''overlay.dll''))"
    by (simp add: high_base_run)
  have high: "(0x175002000 :: int) > 0xFFFFFFFF"
    by simp
  from C8_range_guard [OF cross resolved high] cross resolved high show ?thesis
    by simp
qed



text \<open>
  C10 (as amended). \<open>find_remote_export\<close> reads each candidate name through a window of
  128 bytes and cuts it at the first zero byte. Hence for every ASCII symbol name longer
  than 128 bytes the result is \<open>None\<close>, whatever the export table holds; and whenever an
  address is returned, the symbol name has at most 128 bytes and equals the cut window of
  one of the name reads, a window that holds a zero byte if the symbol name is shorter
  than 128 bytes. So a candidate with no zero byte in its first 128 bytes matches no
  symbol name shorter than 128 bytes. A symbol name of exactly 128 bytes does match: in a
  well-formed export directory whose name windows are readable, a symbol name is resolved
  to the entry of the first candidate whose first 128 bytes equal it.
\<close>

theorem C10_amended:
  "(is_ascii name \<and> 128 < length name \<longrightarrow> fst (find_remote_export sys h base name) = Inr None)
   \<and> (fst (find_remote_export sys h base name) = Inr (Some a) \<longrightarrow>
        length name \<le> 128
        \<and> (\<exists>addr. Call_ReadProcessMemory h addr 128 \<in> set (snd (find_remote_export sys h base name))
              \<and> split_at_nul (snd (read_buffer sys h addr 128)) = ascii_bytes name
              \<and> (length name < 128 \<longrightarrow> 0 \<in> set (snd (read_buffer sys h addr 128)))))
   \<and> (well_formed_exports sys h base x \<and> windows_readable sys h base x \<and> is_ascii name
        \<and> i < length (exportNames x) \<and> take 128 (exportNames x ! i) = ascii_bytes name
        \<and> (\<forall>j<i. take 128 (exportNames x ! j) \<noteq> ascii_bytes name) \<longrightarrow>
        fst (find_remote_export sys h base name)
          = Inr (Some (base + int (functionTable x ! (ordinalTable x ! i)))))"
proof (intro conjI impI)
  assume "is_ascii name \<and> 128 < length name"
  then show "fst (find_remote_export sys h base name) = Inr None"
    by (simp add: find_remote_export_long)
next
  assume r: "fst (find_remote_export sys h base name) = Inr (Some a)"
  then obtain addr where
    a: "Call_ReadProcessMemory h addr 128 \<in> set (snd (find_remote_export sys h base name))"
      "split_at_nul (snd (read_buffer sys h addr 128)) = ascii_bytes name"
    using find_remote_export_match by blast
  have "length (ascii_bytes name) \<le> 128"
    using length_split_at_nul [of "snd (read_buffer sys h addr 128)"] a(2)
    by (simp add: length_read_buffer)
  then show l: "length name \<le> 128"
    by (simp add: ascii_bytes_def)
  have "length name < 128 \<longrightarrow> 0 \<in> set (snd (read_buffer sys h addr 128))"
    using split_at_nul_short [OF a(2)] by (simp add: length_read_buffer ascii_bytes_def)
  with a show "\<exists>addr. Call_ReadProcessMemory h addr 128 \<in> set (snd (find_remote_export sys h base name))
              \<and> split_at_nul (snd (read_buffer sys h addr 128)) = ascii_bytes name
              \<and> (length name < 128 \<longrightarrow> 0 \<in> set (snd (read_buffer sys h addr 128)))"
    by blast
next
  assume h: "well_formed_exports sys h base x \<and> windows_readable sys h base x \<and> is_ascii name
        \<and> i < length (exportNames x) \<and> take 128 (exportNames x ! i) = ascii_bytes name
        \<and> (\<forall>j<i. take 128 (exportNames x ! j) \<noteq> ascii_bytes name)"
  then have "fst (find_remote_export sys h base name) = Inr (resolve_windowed base x (ascii_bytes name))"
    by (simp add: find_remote_export_windowed)
  with h show "fst (find_remote_export sys h base name)
          = Inr (Some (base + int (functionTable x ! (ordinalTable x ! i))))"
    by (simp add: resolve_windowed_first)
qed

theorem C10_amended_witness:
  "is_ascii long_name \<and> 128 < length long_name
   \<and> fst (find_remote_export (synthetic_os 0x75000000 long_name_image []) 100 0x75000000 long_name)
       = Inr None
   \<and> fst (find_remote_export (synthetic_os 0x75000000 good_image []) 100 0x75000000 ''LoadLibraryA'')
       = Inr (Some 0x75002000)
   \<and> (\<exists>addr. Call_ReadProcessMemory 100 addr 128
          \<in> set (snd (find_remote_export (synthetic_os 0x75000000 good_image []) 100 0x75000000
                        ''LoadLibraryA''))
        \<and> split_at_nul (snd (read_buffer (synthetic_os 0x75000000 good_image []) 100 addr 128))
            = ascii_bytes ''LoadLibraryA''
        \<and> 0 \<in> set (snd (read_buffer (synthetic_os 0x75000000 good_image []) 100 addr 128)))
   \<and> well_formed_exports (synthetic_os 0x75000000 name128_image []) 100 0x75000000
        (good_exports name128_image (ascii_bytes ''Beep'') (ascii_bytes name128))
   \<and> windows_readable (synthetic_os 0x75000000 name128_image []) 100 0x75000000
        (good_exports name128_image (ascii_bytes ''Beep'') (ascii_bytes name128))
   \<and> is_ascii name128 \<and> length name128 = 128
   \<and> fst (find_remote_export (synthetic_os 0x75000000 name128_image []) 100 0x75000000 name128)
       = Inr (Some 0x75002000)"
proof -
  let ?x = "good_exports name128_image (ascii_bytes ''Beep'') (ascii_bytes name128)"
  have asc: "is_ascii long_name \<and> 128 < length long_name"
    by (simp add: is_ascii_def long_name_def list_all_iff)
  have found: "fst (find_remote_export (synthetic_os 0x75000000 good_image []) 100 0x75000000
                      ''LoadLibraryA'') = Inr (Some 0x75002000)"
    by (simp add: eval_defs)
  have wf: "well_formed_exports (synthetic_os 0x75000000 name128_image []) 100 0x75000000 ?x"
    by (simp add: eval_defs spec_defs name128_image_def name128_def Cons_eq_replicate)
  have win: "windows_readable (synthetic_os 0x75000000 name128_image []) 100 0x75000000 ?x"
    by (simp add: eval_defs spec_defs name128_image_def name128_def Cons_eq_replicate)
  have a128: "is_ascii name128" "length name128 = 128"
    by (simp_all add: is_ascii_def name128_def list_all_iff)
  have first: "(1::nat) < length (exportNames ?x)"
    "take 128 (exportNames ?x ! 1) = ascii_bytes name128"
    "\<forall>j<1. take 128 (exportNames ?x ! j) \<noteq> ascii_bytes name128"
    "functionTable ?x ! (ordinalTable ?x ! 1) = 0x2000"
    by (simp_all add: good_exports_def ascii_bytes_def name128_def Cons_eq_replicate)
  from asc found wf win a128 first
    C10_amended [where name = long_name and sys = "synthetic_os 0x75000000 long_name_image []"
      and h = 100 and base = "0x75000000"]
    C10_amended [where name = "''LoadLibraryA''" and sys = "synthetic_os 0x75000000 good_image []"
      and h = 100 and base = "0x75000000" and a = "0x75002000"]
    C10_amended [where name = name128 and sys = "synthetic_os 0x75000000 name128_image []"
      and h = 100 and base = "0x75000000" and x = ?x and i = 1]
  show ?thesis
    by simp
qed

text \<open>
  C10 as stated fails for a symbol name of exactly 128 bytes: the window holds the whole
  name, and the address is returned.
\<close>

theorem C10_counterexample:
  "is_ascii name128 \<and> length name128 = 128
   \<and> well_formed_exports (synthetic_os 0x75000000 name128_image []) 100 0x75000000
        (good_exports name128_image (ascii_bytes ''Beep'') (ascii_bytes name128))
   \<and> fst (find_remote_export (synthetic_os 0x75000000 name128_image []) 100 0x75000000 name128)
       = Inr (Some 0x75002000)"
proof (intro conjI)
  show "is_ascii name128"
    by (simp add: is_ascii_def name128_def list_all_iff)
  show "length name128 = 128"
    by (simp add: name128_def)
  show "well_formed_exports (synthetic_os 0x75000000 name128_image []) 100 0x75000000
        (good_exports name128_image (ascii_bytes ''Beep'') (ascii_bytes name128))"
    by (simp add: eval_defs spec_defs name128_image_def name128_def Cons_eq_replicate)
  show "fst (find_remote_export (synthetic_os 0x75000000 name128_image []) 100 0x75000000 name128)
       = Inr (Some 0x75002000)"
    by (simp add: eval_defs name128_image_def name128_def list_all_iff Cons_eq_replicate)
qed

end
